theory Spec2Isabelle
  imports Complex_Main
begin

section \<open>Conventions\<close>

text \<open>
  The sources are TypeScript. A \<open>number\<close> that counts or stamps time (timestamps in
  milliseconds, interval lengths) is an \<open>int\<close>; a capacity is a \<open>nat\<close>; a price, size or
  amount is a \<open>real\<close>: the fields that arrive as decimal strings are taken after
  \<open>parseFloat\<close>, as finite numbers, and arithmetic on them is exact. Where the source
  divides, the quotient of two finite numbers may fail to be finite; such results have a
  type of their own (\<open>jsnum\<close>, below). Strings are \<open>string\<close>. A \<open>Map\<close> is a partial
  function. \<open>Date.now()\<close> is a parameter \<open>now\<close> of the operation that reads it. Logging
  and metrics are left out.
\<close>

section \<open>SymbolMapper\<close>

text \<open>\<open>symbol.replace(/USDT$/, '')\<close>: the pattern is anchored at the end of the input, so
  the one possible match is a trailing \<open>USDT\<close>.\<close>

definition endsWith :: "string \<Rightarrow> string \<Rightarrow> bool" where
  "endsWith s suffix =
     (length suffix \<le> length s \<and> drop (length s - length suffix) s = suffix)"

definition toParadex :: "string \<Rightarrow> string" where
  "toParadex symbol =
     (let base = (if endsWith symbol ''USDT'' then take (length symbol - 4) symbol else symbol)
      in base @ ''-USD-PERP'')"

text \<open>\<open>market.split('-')[0]\<close> is the part of \<open>market\<close> before its first \<open>-\<close>, and all of
  it when there is none.\<close>

definition fromParadex :: "string \<Rightarrow> string" where
  "fromParadex market =
     (let base = takeWhile (\<lambda>c. c \<noteq> CHR ''-'') market
      in base @ ''USDT'')"

definition getParadexMarket :: "string \<Rightarrow> string option \<Rightarrow> string" where
  "getParadexMarket symbol paradexMarket =
     (case paradexMarket of
        None \<Rightarrow> toParadex symbol
      | Some pm \<Rightarrow> if pm = [] then toParadex symbol else pm)"

section \<open>ParadexKlineBuilder\<close>

definition INTERVAL_MS :: "string \<Rightarrow> int option" where
  "INTERVAL_MS interval =
     (if interval = ''1m'' then Some (60 * 1000)
      else if interval = ''3m'' then Some (3 * 60 * 1000)
      else if interval = ''5m'' then Some (5 * 60 * 1000)
      else if interval = ''15m'' then Some (15 * 60 * 1000)
      else if interval = ''30m'' then Some (30 * 60 * 1000)
      else if interval = ''1h'' then Some (60 * 60 * 1000)
      else if interval = ''2h'' then Some (2 * 60 * 60 * 1000)
      else if interval = ''4h'' then Some (4 * 60 * 60 * 1000)
      else if interval = ''1d'' then Some (24 * 60 * 60 * 1000)
      else None)"

record Kline =
  openTime :: int
  open_k :: real
  high :: real
  low :: real
  close_k :: real
  volume :: real
  closeTime :: int

datatype trade_side = buy | sell

record ParadexTrade =
  market_t :: string
  price_t :: real
  size_t :: real
  side_t :: trade_side
  timestamp_t :: int

record KlineBuilder =
  klines :: "string \<rightharpoonup> Kline list"
  currentKline :: "string \<rightharpoonup> Kline"
  interval :: string
  intervalMs :: int
  maxKlines :: nat

text \<open>The constructor: \<open>INTERVAL_MS[interval] || INTERVAL_MS['5m']\<close>.\<close>

definition newKlineBuilder :: "string \<Rightarrow> nat \<Rightarrow> KlineBuilder" where
  "newKlineBuilder iv mx =
     \<lparr> klines = Map.empty, currentKline = Map.empty, interval = iv,
       intervalMs = (case INTERVAL_MS iv of Some ms \<Rightarrow> ms | None \<Rightarrow> 5 * 60 * 1000),
       maxKlines = mx \<rparr>"

definition getKlineStartTime :: "KlineBuilder \<Rightarrow> int \<Rightarrow> int" where
  "getKlineStartTime b timestamp =
     \<lfloor>real_of_int timestamp / real_of_int (intervalMs b)\<rfloor> * intervalMs b"

text \<open>\<open>this.klines.get(market) || []\<close>, as \<open>getKlines\<close>, \<open>hasEnoughData\<close> and
  \<open>getKlineCount\<close> read the history.\<close>

definition closedKlines :: "KlineBuilder \<Rightarrow> string \<Rightarrow> Kline list" where
  "closedKlines b market = (case klines b market of None \<Rightarrow> [] | Some ks \<Rightarrow> ks)"

text \<open>\<open>push\<close>, then one \<open>shift\<close> when the array has grown beyond \<open>maxKlines\<close>.\<close>

definition closeKline :: "KlineBuilder \<Rightarrow> string \<Rightarrow> Kline \<Rightarrow> KlineBuilder" where
  "closeKline b market kline =
     (let marketKlines = (case klines b market of None \<Rightarrow> [] | Some ks \<Rightarrow> ks);
          pushed = marketKlines @ [kline];
          kept = (if length pushed > maxKlines b then tl pushed else pushed)
      in b\<lparr>klines := (klines b)(market \<mapsto> kept)\<rparr>)"

definition startKline :: "KlineBuilder \<Rightarrow> int \<Rightarrow> real \<Rightarrow> real \<Rightarrow> Kline" where
  "startKline b klineStartTime price size' =
     \<lparr> openTime = klineStartTime, open_k = price, high = price, low = price,
       close_k = price, volume = size',
       closeTime = klineStartTime + intervalMs b - 1 \<rparr>"

definition processTrade :: "KlineBuilder \<Rightarrow> ParadexTrade \<Rightarrow> KlineBuilder" where
  "processTrade b trade =
     (let market = market_t trade;
          price = price_t trade;
          size' = size_t trade;
          timestamp = timestamp_t trade;
          klineStartTime = getKlineStartTime b timestamp
      in case currentKline b market of
           None \<Rightarrow>
             b\<lparr>currentKline := (currentKline b)(market \<mapsto> startKline b klineStartTime price size')\<rparr>
         | Some cur \<Rightarrow>
             if openTime cur \<noteq> klineStartTime then
               (let b' = closeKline b market cur
                in b'\<lparr>currentKline :=
                       (currentKline b')(market \<mapsto> startKline b klineStartTime price size')\<rparr>)
             else
               b\<lparr>currentKline := (currentKline b)(market \<mapsto>
                    cur\<lparr>high := max (high cur) price,
                        low := min (low cur) price,
                        close_k := price,
                        volume := volume cur + size'\<rparr>)\<rparr>)"

definition getCurrentKline :: "KlineBuilder \<Rightarrow> string \<Rightarrow> Kline option" where
  "getCurrentKline b market = currentKline b market"

definition getKlineCount :: "KlineBuilder \<Rightarrow> string \<Rightarrow> nat" where
  "getKlineCount b market =
     length (closedKlines b market) + (case currentKline b market of None \<Rightarrow> 0 | Some _ \<Rightarrow> 1)"

text \<open>A stream of trades, processed in order of arrival.\<close>

definition processTrades :: "KlineBuilder \<Rightarrow> ParadexTrade list \<Rightarrow> KlineBuilder" where
  "processTrades b trades = foldl processTrade b trades"

subsection \<open>Example trades\<close>

definition scenarioTrade1 :: ParadexTrade where
  "scenarioTrade1 =
     \<lparr> market_t = ''ETH-USD-PERP'', price_t = 10, size_t = 1, side_t = buy, timestamp_t = 1000 \<rparr>"

definition scenarioTrade2 :: ParadexTrade where
  "scenarioTrade2 =
     \<lparr> market_t = ''ETH-USD-PERP'', price_t = 11, size_t = 2, side_t = buy, timestamp_t = 61000 \<rparr>"

definition scenarioTrade3 :: ParadexTrade where
  "scenarioTrade3 =
     \<lparr> market_t = ''ETH-USD-PERP'', price_t = 12, size_t = 3, side_t = sell, timestamp_t = 2000 \<rparr>"

definition scenarioCandle0 :: Kline where
  "scenarioCandle0 =
     \<lparr> openTime = 0, open_k = 10, high = 10, low = 10, close_k = 10, volume = 1,
       closeTime = 59999 \<rparr>"

definition scenarioCandle1 :: Kline where
  "scenarioCandle1 =
     \<lparr> openTime = 60000, open_k = 11, high = 11, low = 11, close_k = 11, volume = 2,
       closeTime = 119999 \<rparr>"

text \<open>A builder whose open candle starts at 60000, and a trade stamped 1000 that
  reaches it afterwards.\<close>

definition lateTradeBuilder :: KlineBuilder where
  "lateTradeBuilder = processTrade (newKlineBuilder ''1m'' 100) scenarioTrade2"

definition lateTrade :: ParadexTrade where
  "lateTrade =
     \<lparr> market_t = ''ETH-USD-PERP'', price_t = 10, size_t = 1, side_t = sell, timestamp_t = 1000 \<rparr>"

text \<open>A builder that keeps one closed candle, after the first candle has closed.\<close>

definition fullBuilder :: KlineBuilder where
  "fullBuilder = processTrades (newKlineBuilder ''1m'' 1) [scenarioTrade1, scenarioTrade2]"

section \<open>ParadexRestClient of services/execution: request and order placement\<close>

text \<open>
  \<open>request\<close> runs a loop of at most \<open>retries + 1\<close> attempts. Each attempt signs the
  request and calls \<open>fetch\<close>; the outcome of the \<open>n\<close>-th call (counted from 0) is what the
  environment gives, \<open>fetch n\<close>: the promise is rejected with an error (the request
  failed before a response arrived, or the 30 s abort timer fired), or it is resolved
  with a response. The model returns what \<open>request\<close> returns or throws, and the number of
  \<open>fetch\<close> calls it has made. The method, the path and the parameters shape the URL, the
  body and the signature of each attempt and nothing else. Reading the text of a response
  is taken to succeed, the \<open>json\<close> of an \<open>ok\<close> response is returned as its body, and the
  waits between attempts are left out.
\<close>

datatype http_method = GET | POST | DELETE

record JsError =
  name_e :: string
  message_e :: string

record Response =
  ok :: bool
  status :: nat
  body :: string

datatype fetch_result = Rejected JsError | Resolved Response

fun startsWith :: "string \<Rightarrow> string \<Rightarrow> bool" where
  "startsWith s [] = True"
| "startsWith [] (c # cs) = False"
| "startsWith (x # xs) (c # cs) = (x = c \<and> startsWith xs cs)"

fun includes_str :: "string \<Rightarrow> string \<Rightarrow> bool" where
  "includes_str [] sub = (sub = [])"
| "includes_str (x # xs) sub = (startsWith (x # xs) sub \<or> includes_str xs sub)"

fun toString_nat :: "nat \<Rightarrow> string" where
  "toString_nat n =
     (if n < 10 then [char_of (48 + n)]
      else toString_nat (n div 10) @ [char_of (48 + n mod 10)])"

definition isNetworkError :: "JsError \<Rightarrow> bool" where
  "isNetworkError error =
     (includes_str (message_e error) ''fetch failed''
      \<or> includes_str (message_e error) ''timeout''
      \<or> name_e error = ''AbortError'')"

definition apiError :: "Response \<Rightarrow> JsError" where
  "apiError response =
     \<lparr> name_e = ''Error'',
       message_e = ''Paradex API error '' @ toString_nat (status response) @ '': ''
                     @ body response \<rparr>"

text \<open>
  One pass through the body of the loop ends in \<open>continue\<close>, in \<open>return\<close> or in a
  \<open>throw\<close> that leaves the function. The error thrown for a response that is not \<open>ok\<close>
  on the last attempt is thrown inside the \<open>try\<close> block, so the \<open>catch\<close> block handles it
  like a rejection of \<open>fetch\<close>.
\<close>

datatype attempt_end = Continue | Return string | Throw JsError

definition catchBlock :: "JsError \<Rightarrow> nat \<Rightarrow> nat \<Rightarrow> attempt_end" where
  "catchBlock error retries attempt =
     (if isNetworkError error \<and> attempt < retries then Continue else Throw error)"

definition tryBlock :: "fetch_result \<Rightarrow> nat \<Rightarrow> nat \<Rightarrow> attempt_end" where
  "tryBlock fetched retries attempt =
     (case fetched of
        Resolved response \<Rightarrow>
          if \<not> ok response then
            if attempt < retries then Continue
            else catchBlock (apiError response) retries attempt
          else Return (body response)
      | Rejected error \<Rightarrow> catchBlock error retries attempt)"

function requestLoop ::
  "(nat \<Rightarrow> fetch_result) \<Rightarrow> nat \<Rightarrow> nat \<Rightarrow> (JsError + string) \<times> nat" where
  "requestLoop fetch retries attempt =
     (if attempt \<le> retries then
        (case tryBlock (fetch attempt) retries attempt of
           Continue \<Rightarrow> requestLoop fetch retries (attempt + 1)
         | Return json \<Rightarrow> (Inr json, attempt + 1)
         | Throw error \<Rightarrow> (Inl error, attempt + 1))
      else (Inl \<lparr> name_e = ''Error'', message_e = ''Request failed after all retries'' \<rparr>,
            attempt))"
  by pat_completeness auto
termination
  by (relation "measure (\<lambda>(fetch, retries, attempt). Suc retries - attempt)") auto

declare requestLoop.simps [simp del]

definition request ::
  "(nat \<Rightarrow> fetch_result) \<Rightarrow> http_method \<Rightarrow> string \<Rightarrow> nat \<Rightarrow> (JsError + string) \<times> nat" where
  "request fetch method endpoint retries = requestLoop fetch retries 0"

datatype OrderResult = OrderSuccess string | OrderFailure string

text \<open>\<open>placeMarketOrder\<close> posts to \<open>/v1/orders\<close> with the default of 3 retries and turns a
  thrown error into \<open>{success: false, error}\<close>. Its arguments (symbol, side, quantity,
  \<open>reduceOnly\<close>) fill the body of the request and have no part in the retries.\<close>

definition placeMarketOrder :: "(nat \<Rightarrow> fetch_result) \<Rightarrow> OrderResult \<times> nat" where
  "placeMarketOrder fetch =
     (case request fetch POST ''/v1/orders'' 3 of
        (Inr order, sent) \<Rightarrow> (OrderSuccess order, sent)
      | (Inl error, sent) \<Rightarrow> (OrderFailure (message_e error), sent))"

subsection \<open>Example environments\<close>

definition httpErrorThenOk :: "nat \<Rightarrow> fetch_result" where
  "httpErrorThenOk n =
     (if n = 0 then Resolved \<lparr> ok = False, status = 500, body = ''unavailable'' \<rparr>
      else Resolved \<lparr> ok = True, status = 200, body = ''order-1'' \<rparr>)"

definition networkErrorThenOk :: "nat \<Rightarrow> fetch_result" where
  "networkErrorThenOk n =
     (if n = 0 then Rejected \<lparr> name_e = ''TypeError'', message_e = ''fetch failed'' \<rparr>
      else Resolved \<lparr> ok = True, status = 200, body = ''order-1'' \<rparr>)"

text \<open>The outcomes of an attempt after which the loop goes on while attempts are left:
  a response that is not \<open>ok\<close>, and a rejection that \<open>isNetworkError\<close> recognises.\<close>

definition retriable :: "fetch_result \<Rightarrow> bool" where
  "retriable fetched =
     (case fetched of
        Resolved response \<Rightarrow> \<not> ok response
      | Rejected error \<Rightarrow> isNetworkError error)"

section \<open>ParadexRestClient of services/paradex: the cached JWT\<close>

text \<open>
  The functions of this client and of the trading agent are \<open>async\<close>. JavaScript runs
  each of them without interruption up to an \<open>await\<close> that has to wait for the network,
  and runs the rest when the awaited promise is settled; other handlers run in between.
  An \<open>async\<close> function is modelled by its parts: what it does up to that \<open>await\<close>, and
  what it does once the reply is there. The state records the calls that are waiting,
  and a run is a list of events, each handled to completion.
\<close>

record 'a ParadexAPIResponse =
  success :: bool
  data :: "'a option"
  error_r :: "string option"

text \<open>A promise is resolved with a response object or rejected with an error.\<close>

datatype 'a reply = Replied "'a ParadexAPIResponse" | Threw JsError

record JwtData =
  jwt :: string
  expires_at :: int

record RestClient =
  jwtToken :: "string option"
  jwtExpiry :: "int option"

text \<open>\<open>this.jwtToken && this.jwtExpiry && Date.now() < this.jwtExpiry - 60000\<close>: an empty
  string and the number 0 are falsy.\<close>

definition tokenValid :: "RestClient \<Rightarrow> int \<Rightarrow> bool" where
  "tokenValid c now =
     (case jwtToken c of
        None \<Rightarrow> False
      | Some token \<Rightarrow>
          token \<noteq> [] \<and>
          (case jwtExpiry c of
             None \<Rightarrow> False
           | Some expiry \<Rightarrow> expiry \<noteq> 0 \<and> now < expiry - 60000))"

text \<open>\<open>getJWT\<close> up to its \<open>await\<close>: it returns the cached token, or it calls
  \<open>this.request('POST', '/auth/jwt', ..., false)\<close>, which sends the refresh request at
  once, as an unauthenticated request does not wait for anything before its \<open>fetch\<close>.\<close>

datatype jwt_start = Cached string | RefreshRequested int

definition getJWT_start :: "RestClient \<Rightarrow> int \<Rightarrow> jwt_start" where
  "getJWT_start c now =
     (if tokenValid c now
      then (case jwtToken c of Some token \<Rightarrow> Cached token | None \<Rightarrow> RefreshRequested now)
      else RefreshRequested now)"

text \<open>\<open>getJWT\<close> from the reply of the refresh request on.\<close>

definition getJWT_resume ::
  "RestClient \<Rightarrow> JwtData reply \<Rightarrow> RestClient \<times> (JsError + string)" where
  "getJWT_resume c r =
     (case r of
        Replied response \<Rightarrow>
          (case data response of
             Some d \<Rightarrow>
               if success response
               then (c\<lparr>jwtToken := Some (jwt d), jwtExpiry := Some (expires_at d)\<rparr>, Inr (jwt d))
               else (c, Inl \<lparr> name_e = ''Error'', message_e = ''Failed to obtain JWT token'' \<rparr>)
           | None \<Rightarrow> (c, Inl \<lparr> name_e = ''Error'', message_e = ''Failed to obtain JWT token'' \<rparr>))
      | Threw error \<Rightarrow> (c, Inl error))"

text \<open>A client in use. \<open>request\<close> calls \<open>getJWT\<close> at the start of each attempt of an
  authenticated request, before anything is sent, so an authenticated call enters
  \<open>getJWT\<close> in the turn in which it is made. The calls of \<open>getJWT\<close> are numbered in the
  order they are made;
  \<open>refreshing\<close> lists the calls that wait for the reply to their refresh request,
  \<open>refreshRequests\<close> counts the refresh requests made, \<open>returned\<close> holds what the
  finished calls have returned or thrown.\<close>

record ClientRun =
  client :: RestClient
  calls :: nat
  refreshing :: "nat list"
  refreshRequests :: nat
  returned :: "(nat \<times> (JsError + string)) list"

datatype client_event =
  CallGetJWT int
| RefreshReply nat "JwtData reply"

definition clientStep :: "ClientRun \<Rightarrow> client_event \<Rightarrow> ClientRun" where
  "clientStep s ev =
     (case ev of
        CallGetJWT now \<Rightarrow>
          (case getJWT_start (client s) now of
             Cached token \<Rightarrow>
               s\<lparr>calls := calls s + 1, returned := returned s @ [(calls s, Inr token)]\<rparr>
           | RefreshRequested t \<Rightarrow>
               s\<lparr>calls := calls s + 1,
                 refreshing := refreshing s @ [calls s],
                 refreshRequests := refreshRequests s + 1\<rparr>)
      | RefreshReply call r \<Rightarrow>
          if call \<in> set (refreshing s) then
            (case getJWT_resume (client s) r of
               (c', result) \<Rightarrow>
                 s\<lparr>client := c',
                   refreshing := removeAll call (refreshing s),
                   returned := returned s @ [(call, result)]\<rparr>)
          else s)"

definition clientRun :: "ClientRun \<Rightarrow> client_event list \<Rightarrow> ClientRun" where
  "clientRun s evs = foldl clientStep s evs"

definition newClientRun :: ClientRun where
  "newClientRun =
     \<lparr> client = \<lparr> jwtToken = None, jwtExpiry = None \<rparr>, calls = 0, refreshing = [],
       refreshRequests = 0, returned = [] \<rparr>"

text \<open>A client whose token expires at 130000, seen at 100000: 30 s before expiry.\<close>

definition expiringClientRun :: ClientRun where
  "expiringClientRun =
     newClientRun\<lparr>client := \<lparr> jwtToken = Some ''token-1'', jwtExpiry = Some 130000 \<rparr>\<rparr>"

section \<open>ParadexTradingAgent\<close>

subsection \<open>Quotients of numbers\<close>

text \<open>
  The return on equity is a quotient, \<open>(unrealizedPnl / marginUsed) * 100\<close>, and JavaScript
  divides by zero without an error: the result is \<open>Infinity\<close>, \<open>-Infinity\<close> or, for \<open>0 / 0\<close>,
  \<open>NaN\<close>. The fields that hold such a quotient have the type \<open>jsnum\<close>. Every comparison
  with \<open>NaN\<close> is false, and \<open>Math.max\<close> and \<open>Math.min\<close> return \<open>NaN\<close> when an argument is
  \<open>NaN\<close>. Finite values are exact and there is one zero, which divides like \<open>+0\<close>.
\<close>

datatype jsnum = NaN | NegInf | Fin real | PosInf

definition js_div :: "real \<Rightarrow> real \<Rightarrow> jsnum" where
  "js_div x y =
     (if y \<noteq> 0 then Fin (x / y)
      else if 0 < x then PosInf
      else if x < 0 then NegInf
      else NaN)"

definition js_times :: "jsnum \<Rightarrow> real \<Rightarrow> jsnum" where
  "js_times a c =
     (case a of
        NaN \<Rightarrow> NaN
      | Fin x \<Rightarrow> Fin (x * c)
      | PosInf \<Rightarrow> if 0 < c then PosInf else if c < 0 then NegInf else NaN
      | NegInf \<Rightarrow> if 0 < c then NegInf else if c < 0 then PosInf else NaN)"

fun js_le :: "jsnum \<Rightarrow> jsnum \<Rightarrow> bool" where
  "js_le NaN b = False"
| "js_le a NaN = False"
| "js_le NegInf b = True"
| "js_le a PosInf = True"
| "js_le (Fin x) (Fin y) = (x \<le> y)"
| "js_le (Fin x) NegInf = False"
| "js_le PosInf b = False"

definition js_ge :: "jsnum \<Rightarrow> jsnum \<Rightarrow> bool" where
  "js_ge a b = js_le b a"

definition js_max :: "jsnum \<Rightarrow> jsnum \<Rightarrow> jsnum" where
  "js_max a b = (if a = NaN \<or> b = NaN then NaN else if js_le a b then b else a)"

definition js_min :: "jsnum \<Rightarrow> jsnum \<Rightarrow> jsnum" where
  "js_min a b = (if a = NaN \<or> b = NaN then NaN else if js_le a b then a else b)"

subsection \<open>Data\<close>

datatype position_side = long | short

text \<open>A position as the exchange reports it (\<open>ParadexPosition\<close> of \<open>types.ts\<close>), with the
  fields the agent reads.\<close>

record ParadexPosAPI =
  market_a :: string
  side_a :: position_side
  size_a :: real
  entry_price :: real
  mark_price :: real
  unrealized_pnl :: real
  margin_used :: real
  leverage_a :: real
  timestamp_a :: int

text \<open>The agent's \<open>Position\<close>, without \<open>id\<close>, \<open>agentId\<close> and \<open>userId\<close>, which are written
  once and not read.\<close>

record Position =
  symbol :: string
  side :: position_side
  size_p :: real
  entryPrice :: real
  currentPrice :: real
  leverage :: real
  marginUsed :: real
  unrealizedPnl :: real
  unrealizedROE :: jsnum
  highestROE :: jsnum
  lowestROE :: jsnum
  openedAt :: int
  updatedAt :: int

record ScalperConfig =
  stopLossROE :: real
  takeProfitROE :: real
  maxHoldTimeMinutes :: real

datatype order_status = open_s | filled | partially_filled | cancelled | rejected

record ParadexOrder =
  id_o :: string
  market_o :: string
  status_o :: order_status

datatype close_reason = stop_loss | take_profit | max_hold_time

text \<open>A call \<open>restClient.placeMarketOrder(symbol, closeSide, size, true)\<close>.\<close>

record CloseCall =
  call_market :: string
  call_side :: trade_side
  call_size :: real
  call_reduce_only :: bool

datatype agent_emit =
  Emit_ticker string
| Emit_position_update string
| Emit_position_closed_market string
| Emit_position_closed string close_reason real jsnum
| Emit_order_update string

text \<open>
  The state of the agent. \<open>Position\<close> objects are shared: the map \<open>positions\<close> and a
  \<open>closePosition\<close> that waits for its reply hold the same object, and a price update
  changes it in place. So the objects live in a store, \<open>objects\<close>, and \<open>positions\<close> maps a
  market to the reference of its object. \<open>closeCalls\<close> lists the close orders handed to
  the REST client, in order; \<open>closing\<close> lists the calls of \<open>closePosition\<close> that wait for
  the reply, each with the number of its order, its position and its reason.
\<close>

record Agent =
  positions :: "string \<rightharpoonup> nat"
  objects :: "nat \<rightharpoonup> Position"
  allocated :: nat
  priceCache :: "string \<rightharpoonup> real \<times> int"
  config :: ScalperConfig
  equity :: real
  totalTrades :: nat
  winningTrades :: nat
  dailyPnL :: real
  totalPnL :: real
  closeCalls :: "CloseCall list"
  closing :: "(nat \<times> nat \<times> close_reason) list"
  emitted :: "agent_emit list"

definition newAgent :: "ScalperConfig \<Rightarrow> Agent" where
  "newAgent cfg =
     \<lparr> positions = Map.empty, objects = Map.empty, allocated = 0, priceCache = Map.empty,
       config = cfg, equity = 0, totalTrades = 0, winningTrades = 0, dailyPnL = 0,
       totalPnL = 0, closeCalls = [], closing = [], emitted = [] \<rparr>"

subsection \<open>Position management\<close>

definition convertPosition :: "ParadexPosAPI \<Rightarrow> int \<Rightarrow> Position option" where
  "convertPosition apiPos now =
     (if size_a apiPos = 0 then None
      else
        (let unrealizedROE' = js_times (js_div (unrealized_pnl apiPos) (margin_used apiPos)) 100
         in Some \<lparr> symbol = market_a apiPos,
                   side = (if side_a apiPos = long then long else short),
                   size_p = size_a apiPos,
                   entryPrice = entry_price apiPos,
                   currentPrice = mark_price apiPos,
                   leverage = leverage_a apiPos,
                   marginUsed = margin_used apiPos,
                   unrealizedPnl = unrealized_pnl apiPos,
                   unrealizedROE = unrealizedROE',
                   highestROE = unrealizedROE',
                   lowestROE = unrealizedROE',
                   openedAt = timestamp_a apiPos,
                   updatedAt = now \<rparr>))"

text \<open>\<open>this.state.positions.set(market, position)\<close> with a new object.\<close>

definition setPosition :: "Agent \<Rightarrow> string \<Rightarrow> Position \<Rightarrow> Agent" where
  "setPosition s market position =
     s\<lparr>objects := (objects s)(allocated s \<mapsto> position),
       allocated := allocated s + 1,
       positions := (positions s)(market \<mapsto> allocated s)\<rparr>"

text \<open>\<open>closePosition\<close> up to \<open>await this.restClient.placeMarketOrder(...)\<close>.\<close>

definition closePosition_start :: "Agent \<Rightarrow> nat \<Rightarrow> close_reason \<Rightarrow> Agent" where
  "closePosition_start s ref reason =
     (case objects s ref of
        None \<Rightarrow> s
      | Some position \<Rightarrow>
          (let closeSide = (if side position = long then sell else buy)
           in s\<lparr>closeCalls := closeCalls s @
                    [\<lparr> call_market = symbol position, call_side = closeSide,
                       call_size = size_p position, call_reduce_only = True \<rparr>],
                closing := closing s @ [(length (closeCalls s), ref, reason)]\<rparr>))"

text \<open>\<open>closePosition\<close> from the reply on. A rejected promise lands in the \<open>catch\<close> block,
  which logs.\<close>

definition closePosition_resume :: "Agent \<Rightarrow> nat \<Rightarrow> ParadexOrder reply \<Rightarrow> Agent" where
  "closePosition_resume s call r =
     (case find (\<lambda>(c, ref, reason). c = call) (closing s) of
        None \<Rightarrow> s
      | Some (c, ref, reason) \<Rightarrow>
          (let s1 = s\<lparr>closing := filter (\<lambda>(c', ref', reason'). c' \<noteq> call) (closing s)\<rparr>
           in case objects s ref of
                None \<Rightarrow> s1
              | Some position \<Rightarrow>
                  (case r of
                     Replied response \<Rightarrow>
                       if success response \<and> data response \<noteq> None then
                         s1\<lparr>totalTrades := totalTrades s1 + 1,
                            dailyPnL := dailyPnL s1 + unrealizedPnl position,
                            totalPnL := totalPnL s1 + unrealizedPnl position,
                            winningTrades :=
                              (if 0 < unrealizedPnl position then winningTrades s1 + 1
                               else winningTrades s1),
                            positions := (positions s1)(symbol position := None),
                            emitted := emitted s1 @
                              [Emit_position_closed (symbol position) reason
                                 (unrealizedPnl position) (unrealizedROE position)]\<rparr>
                       else s1
                   | Threw error \<Rightarrow> s1)))"

definition checkPositionExitConditions :: "Agent \<Rightarrow> nat \<Rightarrow> int \<Rightarrow> Agent" where
  "checkPositionExitConditions s ref now =
     (case objects s ref of
        None \<Rightarrow> s
      | Some position \<Rightarrow>
          if js_le (unrealizedROE position) (Fin (stopLossROE (config s)))
          then closePosition_start s ref stop_loss
          else if js_ge (unrealizedROE position) (Fin (takeProfitROE (config s)))
          then closePosition_start s ref take_profit
          else
            (let holdTimeMinutes = real_of_int (now - openedAt position) / 60000
             in if holdTimeMinutes \<ge> maxHoldTimeMinutes (config s)
                then closePosition_start s ref max_hold_time
                else s))"

text \<open>The assignments of \<open>updatePositionPrices\<close> to the position object.\<close>

definition repricePosition :: "Position \<Rightarrow> real \<Rightarrow> int \<Rightarrow> Position" where
  "repricePosition position price now =
     (let priceChange = (if side position = long
                         then price - entryPrice position
                         else entryPrice position - price);
          unrealizedPnl' = priceChange * size_p position;
          unrealizedROE' = js_times (js_div unrealizedPnl' (marginUsed position)) 100
      in position
           \<lparr>currentPrice := price,
            unrealizedPnl := unrealizedPnl',
            unrealizedROE := unrealizedROE',
            highestROE := js_max (highestROE position) unrealizedROE',
            lowestROE := js_min (lowestROE position) unrealizedROE',
            updatedAt := now\<rparr>)"

definition updatePositionPrices :: "Agent \<Rightarrow> string \<Rightarrow> real \<Rightarrow> int \<Rightarrow> Agent" where
  "updatePositionPrices s market price now =
     (case positions s market of
        None \<Rightarrow> s
      | Some ref \<Rightarrow>
          (case objects s ref of
             None \<Rightarrow> s
           | Some position \<Rightarrow>
               checkPositionExitConditions
                 (s\<lparr>objects := (objects s)(ref \<mapsto> repricePosition position price now)\<rparr>)
                 ref now))"

subsection \<open>Handlers\<close>

definition handleTickerUpdate :: "Agent \<Rightarrow> string \<Rightarrow> real \<Rightarrow> int \<Rightarrow> int \<Rightarrow> Agent" where
  "handleTickerUpdate s market price timestamp now =
     updatePositionPrices
       (s\<lparr>priceCache := (priceCache s)(market \<mapsto> (price, timestamp)),
          emitted := emitted s @ [Emit_ticker market]\<rparr>)
       market price now"

definition handlePositionUpdate :: "Agent \<Rightarrow> ParadexPosAPI \<Rightarrow> int \<Rightarrow> Agent" where
  "handlePositionUpdate s apiPosition now =
     (case convertPosition apiPosition now of
        Some position \<Rightarrow>
          (let s1 = setPosition s (market_a apiPosition) position
           in s1\<lparr>emitted := emitted s1 @ [Emit_position_update (market_a apiPosition)]\<rparr>)
      | None \<Rightarrow>
          s\<lparr>positions := (positions s)(market_a apiPosition := None),
            emitted := emitted s @ [Emit_position_closed_market (market_a apiPosition)]\<rparr>)"

definition handleOrderUpdate :: "Agent \<Rightarrow> ParadexOrder \<Rightarrow> Agent" where
  "handleOrderUpdate s order = s\<lparr>emitted := emitted s @ [Emit_order_update (id_o order)]\<rparr>"

text \<open>\<open>syncPositions\<close> from the reply of \<open>getPositions\<close> on.\<close>

definition syncPositions_resume :: "Agent \<Rightarrow> ParadexPosAPI list reply \<Rightarrow> int \<Rightarrow> Agent" where
  "syncPositions_resume s r now =
     (case r of
        Replied response \<Rightarrow>
          (case data response of
             None \<Rightarrow> s
           | Some apiPositions \<Rightarrow>
               if success response then
                 foldl (\<lambda>s' apiPos.
                          case convertPosition apiPos now of
                            Some position \<Rightarrow> setPosition s' (market_a apiPos) position
                          | None \<Rightarrow> s')
                       s apiPositions
               else s)
      | Threw error \<Rightarrow> s)"

text \<open>What reaches the agent: the messages of the WebSocket client and the replies to the
  REST calls it waits for. \<open>TickerMsg\<close> carries the market, the last price and the
  timestamp of the ticker; each message comes with the reading of the clock.\<close>

datatype agent_input =
  TickerMsg string real int int
| PositionMsg ParadexPosAPI int
| OrderMsg ParadexOrder
| AccountMsg "real option"
| SyncReply "ParadexPosAPI list reply" int
| CloseReply nat "ParadexOrder reply"

definition agentStep :: "Agent \<Rightarrow> agent_input \<Rightarrow> Agent" where
  "agentStep s input =
     (case input of
        TickerMsg market price timestamp now \<Rightarrow> handleTickerUpdate s market price timestamp now
      | PositionMsg apiPosition now \<Rightarrow> handlePositionUpdate s apiPosition now
      | OrderMsg order \<Rightarrow> handleOrderUpdate s order
      | AccountMsg e \<Rightarrow> (case e of Some v \<Rightarrow> s\<lparr>equity := v\<rparr> | None \<Rightarrow> s)
      | SyncReply r now \<Rightarrow> syncPositions_resume s r now
      | CloseReply call r \<Rightarrow> closePosition_resume s call r)"

definition agentRun :: "Agent \<Rightarrow> agent_input list \<Rightarrow> Agent" where
  "agentRun s inputs = foldl agentStep s inputs"

subsection \<open>Example positions\<close>

definition exampleConfig :: ScalperConfig where
  "exampleConfig = \<lparr> stopLossROE = -5, takeProfitROE = 10, maxHoldTimeMinutes = 30 \<rparr>"

definition exampleApiPos :: ParadexPosAPI where
  "exampleApiPos =
     \<lparr> market_a = ''ETH-USD-PERP'', side_a = long, size_a = 1, entry_price = 100,
       mark_price = 100, unrealized_pnl = 0, margin_used = 10, leverage_a = 10,
       timestamp_a = 0 \<rparr>"

text \<open>An agent with one long position: 1 unit entered at 100 on a margin of 10.\<close>

definition exampleAgent :: Agent where
  "exampleAgent = agentStep (newAgent exampleConfig) (PositionMsg exampleApiPos 0)"

text \<open>The reply to a market order that the exchange has accepted and not yet filled.\<close>

definition orderAccepted :: "ParadexOrder reply" where
  "orderAccepted =
     Replied \<lparr> success = True,
               data = Some \<lparr> id_o = ''order-1'', market_o = ''ETH-USD-PERP'', status_o = open_s \<rparr>,
               error_r = None \<rparr>"

text \<open>A position on which the exchange reports no margin and no profit or loss.\<close>

definition zeroMarginApiPos :: ParadexPosAPI where
  "zeroMarginApiPos = exampleApiPos\<lparr> margin_used := 0 \<rparr>"

subsection \<open>Notions the properties are stated with\<close>

text \<open>\<open>lowestROE \<le> unrealizedROE \<le> highestROE\<close>, with the comparison of the source
  language.\<close>

definition roeBracketed :: "Position \<Rightarrow> bool" where
  "roeBracketed position =
     (js_le (lowestROE position) (unrealizedROE position)
      \<and> js_le (unrealizedROE position) (highestROE position))"

text \<open>Some exit condition of \<open>checkPositionExitConditions\<close> holds for the position.\<close>

definition exitTriggered :: "ScalperConfig \<Rightarrow> Position \<Rightarrow> int \<Rightarrow> bool" where
  "exitTriggered cfg position now =
     (js_le (unrealizedROE position) (Fin (stopLossROE cfg))
      \<or> js_ge (unrealizedROE position) (Fin (takeProfitROE cfg))
      \<or> real_of_int (now - openedAt position) / 60000 \<ge> maxHoldTimeMinutes cfg)"

text \<open>The close order that \<open>closePosition\<close> places for a position.\<close>

definition closeCallOf :: "Position \<Rightarrow> CloseCall" where
  "closeCallOf position =
     \<lparr> call_market = symbol position,
       call_side = (if side position = long then sell else buy),
       call_size = size_p position, call_reduce_only = True \<rparr>"

subsection \<open>Example runs\<close>

text \<open>Two price updates below the stop-loss, with no reply in between.\<close>

definition twoTickers :: "agent_input list" where
  "twoTickers =
     [TickerMsg ''ETH-USD-PERP'' 99 1000 1000, TickerMsg ''ETH-USD-PERP'' 98 2000 2000]"

text \<open>The agent after a price update below the stop-loss.\<close>

definition closingAgent :: Agent where
  "closingAgent = agentStep exampleAgent (TickerMsg ''ETH-USD-PERP'' 99 1000 1000)"

text \<open>The position of \<open>exampleAgent\<close>, as \<open>convertPosition\<close> builds it.\<close>

definition examplePosition :: Position where
  "examplePosition =
     \<lparr> symbol = ''ETH-USD-PERP'', side = long, size_p = 1, entryPrice = 100,
       currentPrice = 100, leverage = 10, marginUsed = 10, unrealizedPnl = 0,
       unrealizedROE = Fin 0, highestROE = Fin 0, lowestROE = Fin 0, openedAt = 0,
       updatedAt = 0 \<rparr>"

text \<open>A configuration whose stop-loss lies above its take-profit, so that a return of 0
  crosses both, and one whose take-profit is 0.\<close>

definition crossedConfig :: ScalperConfig where
  "crossedConfig = \<lparr> stopLossROE = 5, takeProfitROE = 0, maxHoldTimeMinutes = 30 \<rparr>"

definition profitConfig :: ScalperConfig where
  "profitConfig = \<lparr> stopLossROE = -5, takeProfitROE = 0, maxHoldTimeMinutes = 30 \<rparr>"

section \<open>Properties of SymbolMapper\<close>

lemma endsWith_append: "endsWith (base @ suffix) suffix"
  by (simp add: endsWith_def)

lemma toParadex_USDT: "toParadex (base @ ''USDT'') = base @ ''-USD-PERP''"
proof -
  have "endsWith (base @ ''USDT'') ''USDT''"
    by (rule endsWith_append)
  then show ?thesis
    by (simp add: toParadex_def)
qed

lemma fromParadex_dash:
  "CHR ''-'' \<notin> set base \<Longrightarrow> fromParadex (base @ CHR ''-'' # rest) = base @ ''USDT''"
proof -
  assume "CHR ''-'' \<notin> set base"
  then have "takeWhile (\<lambda>c. c \<noteq> CHR ''-'') (base @ CHR ''-'' # rest) = base"
    by (induction base) auto
  then show ?thesis
    by (simp add: fromParadex_def)
qed

text \<open>
  C10. For a symbol \<open>BASE + "USDT"\<close> whose \<open>BASE\<close> is non-empty and has no \<open>-\<close>,
  \<open>fromParadex (toParadex symbol)\<close> is the symbol again.
\<close>

theorem symbol_roundtrip:
  assumes "base \<noteq> []" and "CHR ''-'' \<notin> set base"
  shows "fromParadex (toParadex (base @ ''USDT'')) = base @ ''USDT''"
proof -
  have "toParadex (base @ ''USDT'') = base @ CHR ''-'' # ''USD-PERP''"
    by (simp add: toParadex_USDT)
  moreover have "fromParadex (base @ CHR ''-'' # ''USD-PERP'') = base @ ''USDT''"
    using assms(2) by (rule fromParadex_dash)
  ultimately show ?thesis
    by (simp only:)
qed

theorem symbol_roundtrip_witness:
  "''ETH'' \<noteq> [] \<and> CHR ''-'' \<notin> set ''ETH''
   \<and> toParadex ''ETHUSDT'' = ''ETH-USD-PERP''
   \<and> fromParadex (toParadex ''ETHUSDT'') = ''ETHUSDT''"
  using symbol_roundtrip [of "''ETH''"] toParadex_USDT [of "''ETH''"] by simp

section \<open>Properties of ParadexKlineBuilder\<close>

lemma closedKlines_closeKline:
  "closedKlines (closeKline b m k) m' =
     (if m' = m
      then (if length (closedKlines b m) + 1 > maxKlines b
            then tl (closedKlines b m @ [k]) else closedKlines b m @ [k])
      else closedKlines b m')"
  by (simp add: closedKlines_def closeKline_def Let_def)

lemma closeKline_fields:
  "maxKlines (closeKline b m k) = maxKlines b"
  "intervalMs (closeKline b m k) = intervalMs b"
  "currentKline (closeKline b m k) = currentKline b"
  by (simp_all add: closeKline_def Let_def)

lemma processTrade_None:
  "currentKline b (market_t tr) = None \<Longrightarrow>
   processTrade b tr =
     b\<lparr>currentKline := (currentKline b)(market_t tr \<mapsto>
          startKline b (getKlineStartTime b (timestamp_t tr)) (price_t tr) (size_t tr))\<rparr>"
  by (simp add: processTrade_def Let_def)

lemma processTrade_new:
  "currentKline b (market_t tr) = Some cur \<Longrightarrow>
   openTime cur \<noteq> getKlineStartTime b (timestamp_t tr) \<Longrightarrow>
   processTrade b tr =
     (closeKline b (market_t tr) cur)\<lparr>currentKline := (currentKline b)(market_t tr \<mapsto>
          startKline b (getKlineStartTime b (timestamp_t tr)) (price_t tr) (size_t tr))\<rparr>"
  by (simp add: processTrade_def Let_def closeKline_fields)

lemma processTrade_same:
  "currentKline b (market_t tr) = Some cur \<Longrightarrow>
   openTime cur = getKlineStartTime b (timestamp_t tr) \<Longrightarrow>
   processTrade b tr =
     b\<lparr>currentKline := (currentKline b)(market_t tr \<mapsto>
          cur\<lparr>high := max (high cur) (price_t tr), low := min (low cur) (price_t tr),
              close_k := price_t tr, volume := volume cur + size_t tr\<rparr>)\<rparr>"
  by (simp add: processTrade_def Let_def)

lemma processTrade_maxKlines: "maxKlines (processTrade b tr) = maxKlines b"
  by (simp add: processTrade_def Let_def closeKline_fields split: option.splits)

lemma processTrade_intervalMs: "intervalMs (processTrade b tr) = intervalMs b"
  by (simp add: processTrade_def Let_def closeKline_fields split: option.splits)

lemma closedKlines_currentKline_update:
  "closedKlines (b\<lparr>currentKline := c\<rparr>) m = closedKlines b m"
  by (simp add: closedKlines_def)

lemma closedKlines_processTrade:
  "closedKlines (processTrade b tr) m =
     (case currentKline b (market_t tr) of
        None \<Rightarrow> closedKlines b m
      | Some cur \<Rightarrow>
          if openTime cur \<noteq> getKlineStartTime b (timestamp_t tr)
          then closedKlines (closeKline b (market_t tr) cur) m
          else closedKlines b m)"
  by (simp add: processTrade_def Let_def closedKlines_currentKline_update split: option.splits)

lemma closeKline_bounded:
  "length (closedKlines b m') \<le> maxKlines b \<Longrightarrow>
   length (closedKlines (closeKline b m k) m') \<le> maxKlines b"
  by (auto simp: closedKlines_closeKline)

lemma processTrade_bounded:
  assumes "\<forall>m. length (closedKlines b m) \<le> maxKlines b"
  shows "length (closedKlines (processTrade b tr) m) \<le> maxKlines (processTrade b tr)"
  using assms
  by (simp add: closedKlines_processTrade processTrade_maxKlines closeKline_bounded
      split: option.splits)

lemma processTrades_bounded:
  "\<forall>m. length (closedKlines b m) \<le> maxKlines b \<Longrightarrow>
   length (closedKlines (processTrades b trades) m) \<le> maxKlines b"
proof (induction trades arbitrary: b m)
  case Nil
  then show ?case by (simp add: processTrades_def)
next
  case (Cons tr trades)
  have "\<forall>m. length (closedKlines (processTrade b tr) m) \<le> maxKlines (processTrade b tr)"
    using Cons.prems by (simp add: processTrade_bounded)
  then have "length (closedKlines (processTrades (processTrade b tr) trades) m)
               \<le> maxKlines (processTrade b tr)"
    by (rule Cons.IH)
  then show ?case
    by (simp add: processTrades_def processTrade_maxKlines)
qed

lemma newKlineBuilder_closed: "closedKlines (newKlineBuilder iv mx) m = []"
  by (simp add: newKlineBuilder_def closedKlines_def)

lemma INTERVAL_MS_positive: "INTERVAL_MS iv = Some ms \<Longrightarrow> 0 < ms"
  by (auto simp: INTERVAL_MS_def split: if_splits)

lemma newKlineBuilder_intervalMs: "0 < intervalMs (newKlineBuilder iv mx)"
  by (auto simp: newKlineBuilder_def split: option.splits dest: INTERVAL_MS_positive)

lemma processTrades_intervalMs: "intervalMs (processTrades b trades) = intervalMs b"
  unfolding processTrades_def
  by (induction trades arbitrary: b) (simp_all add: processTrade_intervalMs)

text \<open>The constructor takes the interval from the table, so every builder in use has a
  positive \<open>intervalMs\<close>; the properties of the bucket are stated for such builders.\<close>

lemma builder_intervalMs: "0 < intervalMs (processTrades (newKlineBuilder iv mx) trades)"
  by (simp add: processTrades_intervalMs newKlineBuilder_intervalMs)

lemmas kline_eval =
  processTrades_def processTrade_def newKlineBuilder_def INTERVAL_MS_def getKlineStartTime_def
  startKline_def closedKlines_def closeKline_def Let_def scenarioTrade1_def scenarioTrade2_def
  scenarioTrade3_def scenarioCandle0_def scenarioCandle1_def lateTradeBuilder_def lateTrade_def
  fullBuilder_def

lemma scenario_eval:
  "closedKlines (processTrades (newKlineBuilder ''1m'' 100) [scenarioTrade1, scenarioTrade2])
      ''ETH-USD-PERP'' = [scenarioCandle0]"
  "currentKline (processTrades (newKlineBuilder ''1m'' 100) [scenarioTrade1, scenarioTrade2])
      ''ETH-USD-PERP'' = Some scenarioCandle1"
  by (simp_all add: kline_eval)

lemma lateTradeBuilder_eval:
  "currentKline lateTradeBuilder ''ETH-USD-PERP'' = Some scenarioCandle1"
  "closedKlines lateTradeBuilder ''ETH-USD-PERP'' = []"
  "intervalMs lateTradeBuilder = 60000"
  "maxKlines lateTradeBuilder = 100"
  by (simp_all add: kline_eval)

lemma fullBuilder_eval:
  "closedKlines fullBuilder ''ETH-USD-PERP'' = [scenarioCandle0]"
  "currentKline fullBuilder ''ETH-USD-PERP'' = Some scenarioCandle1"
  "maxKlines fullBuilder = 1"
  "intervalMs fullBuilder = 60000"
  by (simp_all add: kline_eval)

text \<open>
  C5. The bucket of a trade is \<open>floor (timestamp / intervalMs) * intervalMs\<close>. A trade
  for a market with no open candle, or whose bucket differs from the open candle's, opens
  a candle with open = high = low = close = price and volume = size, and in the second
  case the previous open candle goes to the history. A trade in the open candle's bucket
  sets high to the maximum of high and price, low to the minimum of low and price, close
  to the price, and adds the size to the volume. With a 60000 ms interval, trades at
  \<open>t = 1000\<close> (price 10, size 1) and \<open>t = 61000\<close> (price 11, size 2) leave the closed
  candle \<open>{open 10, high 10, low 10, close 10, volume 1}\<close> and an open candle with open 11
  and volume 2.
\<close>

theorem processTrade_candles:
  assumes "0 < intervalMs b"
  shows
  "getKlineStartTime b (timestamp_t tr)
     = \<lfloor>real_of_int (timestamp_t tr) / real_of_int (intervalMs b)\<rfloor> * intervalMs b
   \<and> (currentKline b (market_t tr) = None \<longrightarrow>
        currentKline (processTrade b tr) (market_t tr) =
          Some \<lparr> openTime = getKlineStartTime b (timestamp_t tr),
                 open_k = price_t tr, high = price_t tr, low = price_t tr,
                 close_k = price_t tr, volume = size_t tr,
                 closeTime = getKlineStartTime b (timestamp_t tr) + intervalMs b - 1 \<rparr>
        \<and> closedKlines (processTrade b tr) (market_t tr) = closedKlines b (market_t tr))
   \<and> (currentKline b (market_t tr) = Some cur
        \<and> openTime cur \<noteq> getKlineStartTime b (timestamp_t tr) \<longrightarrow>
        currentKline (processTrade b tr) (market_t tr) =
          Some \<lparr> openTime = getKlineStartTime b (timestamp_t tr),
                 open_k = price_t tr, high = price_t tr, low = price_t tr,
                 close_k = price_t tr, volume = size_t tr,
                 closeTime = getKlineStartTime b (timestamp_t tr) + intervalMs b - 1 \<rparr>
        \<and> closedKlines (processTrade b tr) (market_t tr) =
            (if length (closedKlines b (market_t tr)) + 1 > maxKlines b
             then tl (closedKlines b (market_t tr) @ [cur])
             else closedKlines b (market_t tr) @ [cur]))
   \<and> (currentKline b (market_t tr) = Some cur
        \<and> openTime cur = getKlineStartTime b (timestamp_t tr) \<longrightarrow>
        currentKline (processTrade b tr) (market_t tr) =
          Some (cur\<lparr> high := max (high cur) (price_t tr), low := min (low cur) (price_t tr),
                     close_k := price_t tr, volume := volume cur + size_t tr \<rparr>)
        \<and> closedKlines (processTrade b tr) (market_t tr) = closedKlines b (market_t tr))
   \<and> closedKlines (processTrades (newKlineBuilder ''1m'' 100) [scenarioTrade1, scenarioTrade2])
        ''ETH-USD-PERP'' =
        [\<lparr> openTime = 0, open_k = 10, high = 10, low = 10, close_k = 10, volume = 1,
           closeTime = 59999 \<rparr>]
   \<and> currentKline (processTrades (newKlineBuilder ''1m'' 100) [scenarioTrade1, scenarioTrade2])
        ''ETH-USD-PERP'' =
        Some \<lparr> openTime = 60000, open_k = 11, high = 11, low = 11, close_k = 11, volume = 2,
               closeTime = 119999 \<rparr>"
proof -
  have bucket: "getKlineStartTime b (timestamp_t tr)
     = \<lfloor>real_of_int (timestamp_t tr) / real_of_int (intervalMs b)\<rfloor> * intervalMs b"
    by (simp add: getKlineStartTime_def)
  have none: "currentKline b (market_t tr) = None \<longrightarrow>
        currentKline (processTrade b tr) (market_t tr) =
          Some \<lparr> openTime = getKlineStartTime b (timestamp_t tr),
                 open_k = price_t tr, high = price_t tr, low = price_t tr,
                 close_k = price_t tr, volume = size_t tr,
                 closeTime = getKlineStartTime b (timestamp_t tr) + intervalMs b - 1 \<rparr>
        \<and> closedKlines (processTrade b tr) (market_t tr) = closedKlines b (market_t tr)"
    by (simp add: processTrade_None startKline_def closedKlines_currentKline_update)
  have new: "currentKline b (market_t tr) = Some cur
        \<and> openTime cur \<noteq> getKlineStartTime b (timestamp_t tr) \<longrightarrow>
        currentKline (processTrade b tr) (market_t tr) =
          Some \<lparr> openTime = getKlineStartTime b (timestamp_t tr),
                 open_k = price_t tr, high = price_t tr, low = price_t tr,
                 close_k = price_t tr, volume = size_t tr,
                 closeTime = getKlineStartTime b (timestamp_t tr) + intervalMs b - 1 \<rparr>
        \<and> closedKlines (processTrade b tr) (market_t tr) =
            (if length (closedKlines b (market_t tr)) + 1 > maxKlines b
             then tl (closedKlines b (market_t tr) @ [cur])
             else closedKlines b (market_t tr) @ [cur])"
    by (simp add: processTrade_new startKline_def closedKlines_currentKline_update
        closedKlines_closeKline)
  have same: "currentKline b (market_t tr) = Some cur
        \<and> openTime cur = getKlineStartTime b (timestamp_t tr) \<longrightarrow>
        currentKline (processTrade b tr) (market_t tr) =
          Some (cur\<lparr> high := max (high cur) (price_t tr), low := min (low cur) (price_t tr),
                     close_k := price_t tr, volume := volume cur + size_t tr \<rparr>)
        \<and> closedKlines (processTrade b tr) (market_t tr) = closedKlines b (market_t tr)"
    by (simp add: processTrade_same closedKlines_currentKline_update)
  have scen: "closedKlines (processTrades (newKlineBuilder ''1m'' 100)
                 [scenarioTrade1, scenarioTrade2]) ''ETH-USD-PERP'' =
        [\<lparr> openTime = 0, open_k = 10, high = 10, low = 10, close_k = 10, volume = 1,
           closeTime = 59999 \<rparr>]
     \<and> currentKline (processTrades (newKlineBuilder ''1m'' 100)
                 [scenarioTrade1, scenarioTrade2]) ''ETH-USD-PERP'' =
        Some \<lparr> openTime = 60000, open_k = 11, high = 11, low = 11, close_k = 11, volume = 2,
               closeTime = 119999 \<rparr>"
    by (simp add: scenario_eval scenarioCandle0_def scenarioCandle1_def)
  from bucket none new same scen show ?thesis
    by (simp only: simp_thms)
qed

theorem processTrade_candles_witness:
  "0 < intervalMs (newKlineBuilder ''1m'' 100) \<and> 0 < intervalMs fullBuilder
   \<and> 0 < intervalMs lateTradeBuilder
   \<and> currentKline (newKlineBuilder ''1m'' 100) (market_t scenarioTrade1) = None
   \<and> currentKline (processTrade (newKlineBuilder ''1m'' 100) scenarioTrade1) ''ETH-USD-PERP''
       = Some scenarioCandle0
   \<and> currentKline fullBuilder (market_t lateTrade) = Some scenarioCandle1
   \<and> openTime scenarioCandle1 \<noteq> getKlineStartTime fullBuilder (timestamp_t lateTrade)
   \<and> currentKline (processTrade fullBuilder lateTrade) ''ETH-USD-PERP''
       = Some scenarioCandle0
   \<and> closedKlines (processTrade fullBuilder lateTrade) ''ETH-USD-PERP'' = [scenarioCandle1]
   \<and> currentKline lateTradeBuilder (market_t scenarioTrade2) = Some scenarioCandle1
   \<and> openTime scenarioCandle1 = getKlineStartTime lateTradeBuilder (timestamp_t scenarioTrade2)
   \<and> currentKline (processTrade lateTradeBuilder scenarioTrade2) ''ETH-USD-PERP''
       = Some \<lparr> openTime = 60000, open_k = 11, high = 11, low = 11, close_k = 11, volume = 4,
                closeTime = 119999 \<rparr>"
proof -
  have h1: "currentKline (newKlineBuilder ''1m'' 100) (market_t scenarioTrade1) = None"
    by (simp add: newKlineBuilder_def)
  have h2: "currentKline fullBuilder (market_t lateTrade) = Some scenarioCandle1
            \<and> openTime scenarioCandle1 \<noteq> getKlineStartTime fullBuilder (timestamp_t lateTrade)"
    by (simp add: fullBuilder_eval lateTrade_def getKlineStartTime_def scenarioCandle1_def)
  have h3: "currentKline lateTradeBuilder (market_t scenarioTrade2) = Some scenarioCandle1
            \<and> openTime scenarioCandle1
                = getKlineStartTime lateTradeBuilder (timestamp_t scenarioTrade2)"
    by (simp add: lateTradeBuilder_eval scenarioTrade2_def getKlineStartTime_def
        scenarioCandle1_def)
  have p1: "0 < intervalMs (newKlineBuilder ''1m'' 100)"
    by (rule newKlineBuilder_intervalMs)
  have p2: "0 < intervalMs fullBuilder"
    by (simp add: fullBuilder_eval)
  have p3: "0 < intervalMs lateTradeBuilder"
    by (simp add: lateTradeBuilder_eval)
  from h1 h2 h3 p1 p2 p3
    processTrade_candles [OF p1, of scenarioTrade1]
    processTrade_candles [OF p2, of lateTrade scenarioCandle1]
    processTrade_candles [OF p3, of scenarioTrade2 scenarioCandle1]
  show ?thesis
    by (simp add: scenarioTrade1_def scenarioTrade2_def lateTrade_def scenarioCandle0_def
        scenarioCandle1_def newKlineBuilder_def INTERVAL_MS_def getKlineStartTime_def
        fullBuilder_eval lateTradeBuilder_eval)
qed

text \<open>
  C7. Whatever trades are processed, the history of closed candles of a market never
  holds more than \<open>maxKlines\<close> entries; closing a candle when the history is full drops
  the oldest entry (the head) and nothing else.
\<close>

theorem history_bounded_fifo:
  "length (closedKlines (processTrades (newKlineBuilder iv mx) trades) m) \<le> mx
   \<and> (length (closedKlines b m) = maxKlines b \<longrightarrow>
        closedKlines (closeKline b m k) m = tl (closedKlines b m @ [k]))
   \<and> (length (closedKlines b m) < maxKlines b \<longrightarrow>
        closedKlines (closeKline b m k) m = closedKlines b m @ [k])"
proof -
  have "length (closedKlines (processTrades (newKlineBuilder iv mx) trades) m)
          \<le> maxKlines (newKlineBuilder iv mx)"
    by (rule processTrades_bounded) (simp add: newKlineBuilder_closed)
  then have "length (closedKlines (processTrades (newKlineBuilder iv mx) trades) m) \<le> mx"
    by (simp add: newKlineBuilder_def)
  then show ?thesis
    by (simp add: closedKlines_closeKline)
qed

theorem history_bounded_fifo_witness:
  "length (closedKlines fullBuilder ''ETH-USD-PERP'') = maxKlines fullBuilder
   \<and> closedKlines fullBuilder ''ETH-USD-PERP'' = [scenarioCandle0]
   \<and> closedKlines (closeKline fullBuilder ''ETH-USD-PERP'' scenarioCandle1) ''ETH-USD-PERP''
       = [scenarioCandle1]
   \<and> length (closedKlines lateTradeBuilder ''ETH-USD-PERP'') < maxKlines lateTradeBuilder
   \<and> closedKlines (closeKline lateTradeBuilder ''ETH-USD-PERP'' scenarioCandle1) ''ETH-USD-PERP''
       = [scenarioCandle1]
   \<and> length (closedKlines (processTrades (newKlineBuilder ''1m'' 1)
                [scenarioTrade1, scenarioTrade2, scenarioTrade3]) ''ETH-USD-PERP'') \<le> 1"
proof -
  have h1: "length (closedKlines fullBuilder ''ETH-USD-PERP'') = maxKlines fullBuilder"
    by (simp add: fullBuilder_eval)
  have h2: "length (closedKlines lateTradeBuilder ''ETH-USD-PERP'') < maxKlines lateTradeBuilder"
    by (simp add: lateTradeBuilder_eval)
  from h1 h2
    history_bounded_fifo [of "''1m''" 1 "[scenarioTrade1, scenarioTrade2, scenarioTrade3]"
      "''ETH-USD-PERP''" fullBuilder scenarioCandle1]
    history_bounded_fifo [of "''1m''" 1 "[]" "''ETH-USD-PERP''" lateTradeBuilder
      scenarioCandle1]
  show ?thesis
    by (simp add: fullBuilder_eval lateTradeBuilder_eval)
qed

lemma processTrade_history_grows:
  "\<exists>d extra. d \<le> 1 \<and> length extra \<le> 1
     \<and> closedKlines (processTrade b tr) m = drop d (closedKlines b m @ extra)"
proof (cases "currentKline b (market_t tr)")
  case None
  then have "closedKlines (processTrade b tr) m = drop 0 (closedKlines b m @ [])"
    by (simp add: closedKlines_processTrade)
  then show ?thesis
    by (metis le0 list.size(3))
next
  case (Some cur)
  show ?thesis
  proof (cases "openTime cur \<noteq> getKlineStartTime b (timestamp_t tr) \<and> m = market_t tr")
    case True
    have tl_drop: "\<And>ys :: Kline list. tl ys = drop 1 ys"
      by (simp add: drop_Suc)
    have "closedKlines (processTrade b tr) m = closedKlines b m @ [cur]
          \<or> closedKlines (processTrade b tr) m = tl (closedKlines b m @ [cur])"
      using Some True by (simp add: closedKlines_processTrade closedKlines_closeKline)
    then have "closedKlines (processTrade b tr) m = drop 0 (closedKlines b m @ [cur])
          \<or> closedKlines (processTrade b tr) m = drop 1 (closedKlines b m @ [cur])"
      by (simp only: tl_drop drop_0)
    moreover have "length [cur] \<le> 1"
      by simp
    ultimately show ?thesis
      by (metis le0 le_refl)
  next
    case False
    then have "closedKlines (processTrade b tr) m = drop 0 (closedKlines b m @ [])"
      using Some by (auto simp: closedKlines_processTrade closedKlines_closeKline)
    then show ?thesis
      by (metis le0 list.size(3))
  qed
qed

text \<open>
  C4, as the sources have it. The claim reads: a trade whose bucket is older than the open
  candle's is folded into the open candle. \<open>processTrade\<close> compares the two buckets with
  \<open>!==\<close> only, so the late trade takes the branch of any other bucket: here the open
  candle of bucket 60000 is closed into the history and a candle of bucket 0 is opened,
  while folding would have left the candle of bucket 60000 open with low 10, close 10 and
  volume 3.
\<close>

theorem late_trade_counterexample:
  "currentKline lateTradeBuilder (market_t lateTrade) = Some scenarioCandle1
   \<and> getKlineStartTime lateTradeBuilder (timestamp_t lateTrade) < openTime scenarioCandle1
   \<and> currentKline (processTrade lateTradeBuilder lateTrade) (market_t lateTrade)
       = Some \<lparr> openTime = 0, open_k = 10, high = 10, low = 10, close_k = 10, volume = 1,
                closeTime = 59999 \<rparr>
   \<and> currentKline (processTrade lateTradeBuilder lateTrade) (market_t lateTrade)
       \<noteq> Some (scenarioCandle1\<lparr> high := max (high scenarioCandle1) (price_t lateTrade),
                                low := min (low scenarioCandle1) (price_t lateTrade),
                                close_k := price_t lateTrade,
                                volume := volume scenarioCandle1 + size_t lateTrade \<rparr>)
   \<and> closedKlines (processTrade lateTradeBuilder lateTrade) (market_t lateTrade)
       = [scenarioCandle1]"
  by (simp add: kline_eval)

text \<open>
  C4, amended. A trade whose bucket is older than the open candle's closes the open candle
  (it is appended to the history, the oldest entry leaving when the history was full) and
  opens a new candle at the older bucket with open = high = low = close = price and
  volume = size; histories of other markets stay as they are. No trade changes a candle
  that is in the history: after any trade, the history of any market is the old one,
  possibly without its first entry, possibly with one candle appended.
\<close>

theorem late_trade_closes_open_candle:
  assumes "0 < intervalMs b"
    and "currentKline b (market_t tr) = Some cur"
    and "getKlineStartTime b (timestamp_t tr) < openTime cur"
  shows "currentKline (processTrade b tr) (market_t tr) =
           Some \<lparr> openTime = getKlineStartTime b (timestamp_t tr),
                  open_k = price_t tr, high = price_t tr, low = price_t tr,
                  close_k = price_t tr, volume = size_t tr,
                  closeTime = getKlineStartTime b (timestamp_t tr) + intervalMs b - 1 \<rparr>
         \<and> closedKlines (processTrade b tr) (market_t tr) =
             (if length (closedKlines b (market_t tr)) + 1 > maxKlines b
              then tl (closedKlines b (market_t tr) @ [cur])
              else closedKlines b (market_t tr) @ [cur])
         \<and> (m \<noteq> market_t tr \<longrightarrow> closedKlines (processTrade b tr) m = closedKlines b m)
         \<and> (\<exists>d extra. d \<le> 1 \<and> length extra \<le> 1
               \<and> closedKlines (processTrade b' tr') m' = drop d (closedKlines b' m' @ extra))"
proof -
  have ne: "openTime cur \<noteq> getKlineStartTime b (timestamp_t tr)"
    using assms(3) by simp
  have cur': "currentKline (processTrade b tr) (market_t tr) =
           Some \<lparr> openTime = getKlineStartTime b (timestamp_t tr),
                  open_k = price_t tr, high = price_t tr, low = price_t tr,
                  close_k = price_t tr, volume = size_t tr,
                  closeTime = getKlineStartTime b (timestamp_t tr) + intervalMs b - 1 \<rparr>"
    using assms(2) ne by (simp add: processTrade_new startKline_def)
  have hist: "closedKlines (processTrade b tr) (market_t tr) =
             (if length (closedKlines b (market_t tr)) + 1 > maxKlines b
              then tl (closedKlines b (market_t tr) @ [cur])
              else closedKlines b (market_t tr) @ [cur])"
    using assms(2) ne by (simp add: closedKlines_processTrade closedKlines_closeKline)
  have other: "m \<noteq> market_t tr \<longrightarrow> closedKlines (processTrade b tr) m = closedKlines b m"
    using assms(2) by (simp add: closedKlines_processTrade closedKlines_closeKline)
  from cur' hist other processTrade_history_grows [of b' tr' m'] show ?thesis
    by (simp only: simp_thms)
qed

theorem late_trade_closes_open_candle_witness:
  "0 < intervalMs lateTradeBuilder
   \<and> currentKline lateTradeBuilder (market_t lateTrade) = Some scenarioCandle1
   \<and> getKlineStartTime lateTradeBuilder (timestamp_t lateTrade) < openTime scenarioCandle1
   \<and> currentKline (processTrade lateTradeBuilder lateTrade) ''ETH-USD-PERP''
       = Some scenarioCandle0
   \<and> closedKlines (processTrade lateTradeBuilder lateTrade) ''ETH-USD-PERP''
       = [scenarioCandle1]
   \<and> closedKlines (processTrade lateTradeBuilder lateTrade) ''BTC-USD-PERP''
       = closedKlines lateTradeBuilder ''BTC-USD-PERP''"
proof -
  have h1: "currentKline lateTradeBuilder (market_t lateTrade) = Some scenarioCandle1"
    by (simp add: lateTradeBuilder_eval lateTrade_def)
  have h2: "getKlineStartTime lateTradeBuilder (timestamp_t lateTrade) < openTime scenarioCandle1"
    by (simp add: getKlineStartTime_def lateTradeBuilder_eval lateTrade_def scenarioCandle1_def)
  have h0: "0 < intervalMs lateTradeBuilder"
    by (simp add: lateTradeBuilder_eval)
  from late_trade_closes_open_candle [OF h0 h1 h2, of "''BTC-USD-PERP''"] h0 h1 h2 show ?thesis
    by (simp add: lateTradeBuilder_eval lateTrade_def scenarioCandle0_def
        getKlineStartTime_def)
qed

section \<open>Properties of request\<close>

lemma tryBlock_Continue:
  "tryBlock fetched retries attempt = Continue \<longleftrightarrow> attempt < retries \<and> retriable fetched"
  by (auto simp: tryBlock_def catchBlock_def retriable_def split: fetch_result.splits)

lemma requestLoop_sent:
  "attempt \<le> retries \<Longrightarrow>
   attempt < snd (requestLoop fetch retries attempt)
   \<and> snd (requestLoop fetch retries attempt) \<le> retries + 1
   \<and> (\<forall>i. attempt \<le> i \<and> Suc i < snd (requestLoop fetch retries attempt)
          \<longrightarrow> retriable (fetch i))
   \<and> (\<forall>i. attempt \<le> i \<and> i < snd (requestLoop fetch retries attempt) \<and> i < retries
          \<and> retriable (fetch i) \<longrightarrow> Suc i < snd (requestLoop fetch retries attempt))"
proof (induction fetch retries attempt rule: requestLoop.induct)
  case (1 fetch retries attempt)
  show ?case
  proof (cases "tryBlock (fetch attempt) retries attempt = Continue")
    case True
    then have step: "requestLoop fetch retries attempt = requestLoop fetch retries (attempt + 1)"
      using "1.prems" by (subst requestLoop.simps) simp
    from True have lt: "attempt < retries" and re: "retriable (fetch attempt)"
      by (simp_all add: tryBlock_Continue)
    have ih: "attempt + 1 < snd (requestLoop fetch retries (attempt + 1))
       \<and> snd (requestLoop fetch retries (attempt + 1)) \<le> retries + 1
       \<and> (\<forall>i. attempt + 1 \<le> i \<and> Suc i < snd (requestLoop fetch retries (attempt + 1))
          \<longrightarrow> retriable (fetch i))
       \<and> (\<forall>i. attempt + 1 \<le> i \<and> i < snd (requestLoop fetch retries (attempt + 1)) \<and> i < retries
          \<and> retriable (fetch i) \<longrightarrow> Suc i < snd (requestLoop fetch retries (attempt + 1)))"
      using "1.IH" [OF "1.prems" True] lt by simp
    show ?thesis
      unfolding step using ih re
      by (metis Suc_eq_plus1 Suc_leI Suc_lessD le_neq_implies_less)
  next
    case False
    then have n: "snd (requestLoop fetch retries attempt) = attempt + 1"
      using "1.prems"
      by (subst requestLoop.simps) (simp split: attempt_end.splits)
    from False have nr: "\<not> (attempt < retries \<and> retriable (fetch attempt))"
      by (simp add: tryBlock_Continue)
    have c4: "\<forall>i. attempt \<le> i \<and> i < attempt + 1 \<and> i < retries \<and> retriable (fetch i)
                 \<longrightarrow> Suc i < attempt + 1"
    proof (intro allI impI)
      fix i
      assume a: "attempt \<le> i \<and> i < attempt + 1 \<and> i < retries \<and> retriable (fetch i)"
      then have "i = attempt"
        by simp
      with a nr show "Suc i < attempt + 1"
        by simp
    qed
    have c3: "\<forall>i. attempt \<le> i \<and> Suc i < attempt + 1 \<longrightarrow> retriable (fetch i)"
      by auto
    have c1: "attempt < attempt + 1 \<and> attempt + 1 \<le> retries + 1"
      using "1.prems" by simp
    from c1 c3 c4 show ?thesis
      unfolding n by (simp only: simp_thms)
  qed
qed

lemma request_eval:
  "request httpErrorThenOk POST ''/v1/orders'' 3 = (Inr ''order-1'', 2)"
  "request networkErrorThenOk POST ''/v1/orders'' 3 = (Inr ''order-1'', 2)"
  by (simp_all add: request_def requestLoop.simps tryBlock_def catchBlock_def
      httpErrorThenOk_def networkErrorThenOk_def isNetworkError_def)

text \<open>
  C1, as the sources have it. The claim reads: once any response has been received for an
  order placement, an HTTP error status included, the request is not retried. Here the
  first \<open>fetch\<close> of a market order is answered with status 500, and \<open>request\<close> sends the
  order a second time.
\<close>

theorem order_retry_counterexample:
  "httpErrorThenOk 0 = Resolved \<lparr> ok = False, status = 500, body = ''unavailable'' \<rparr>
   \<and> placeMarketOrder httpErrorThenOk = (OrderSuccess ''order-1'', 2)"
  by (simp add: placeMarketOrder_def request_eval) (simp add: httpErrorThenOk_def)

text \<open>
  C1, amended. For every request, order placement included (a POST with 3 retries), at
  least one and at most \<open>retries + 1\<close> attempts are made, and an attempt is followed by
  another one only after a network-level failure before any response (a rejection whose
  message contains \<open>fetch failed\<close> or \<open>timeout\<close>, or an \<open>AbortError\<close>) or after a response
  whose status is not \<open>ok\<close>; after either of the two, the request is retried while fewer
  than \<open>retries\<close> retries have been made. A response that is \<open>ok\<close> and any other failure
  end the request.
\<close>

theorem request_retry_policy:
  "1 \<le> snd (request fetch method endpoint retries)
   \<and> snd (request fetch method endpoint retries) \<le> retries + 1
   \<and> (\<forall>i. Suc i < snd (request fetch method endpoint retries) \<longrightarrow>
          (case fetch i of
             Resolved response \<Rightarrow> \<not> ok response
           | Rejected error \<Rightarrow> isNetworkError error))
   \<and> (\<forall>i. i < snd (request fetch method endpoint retries) \<and> i < retries
             \<and> retriable (fetch i) \<longrightarrow>
          Suc i < snd (request fetch method endpoint retries))
   \<and> snd (placeMarketOrder fetch) = snd (request fetch POST ''/v1/orders'' 3)"
proof -
  have "0 < snd (requestLoop fetch retries 0)
      \<and> snd (requestLoop fetch retries 0) \<le> retries + 1
      \<and> (\<forall>i. 0 \<le> i \<and> Suc i < snd (requestLoop fetch retries 0) \<longrightarrow> retriable (fetch i))
      \<and> (\<forall>i. 0 \<le> i \<and> i < snd (requestLoop fetch retries 0) \<and> i < retries
             \<and> retriable (fetch i) \<longrightarrow> Suc i < snd (requestLoop fetch retries 0))"
    by (rule requestLoop_sent) simp
  then have loop: "1 \<le> snd (request fetch method endpoint retries)
   \<and> snd (request fetch method endpoint retries) \<le> retries + 1
   \<and> (\<forall>i. Suc i < snd (request fetch method endpoint retries) \<longrightarrow>
          (case fetch i of
             Resolved response \<Rightarrow> \<not> ok response
           | Rejected error \<Rightarrow> isNetworkError error))
   \<and> (\<forall>i. i < snd (request fetch method endpoint retries) \<and> i < retries
             \<and> retriable (fetch i) \<longrightarrow>
          Suc i < snd (request fetch method endpoint retries))"
    by (simp add: request_def retriable_def Suc_le_eq)
  have "snd (placeMarketOrder fetch) = snd (request fetch POST ''/v1/orders'' 3)"
    by (simp add: placeMarketOrder_def split: prod.splits sum.splits)
  with loop show ?thesis
    by simp
qed

theorem request_retry_policy_witness:
  "Suc 0 < snd (request networkErrorThenOk POST ''/v1/orders'' 3)
   \<and> networkErrorThenOk 0 = Rejected \<lparr> name_e = ''TypeError'', message_e = ''fetch failed'' \<rparr>
   \<and> isNetworkError \<lparr> name_e = ''TypeError'', message_e = ''fetch failed'' \<rparr>
   \<and> 0 < snd (request httpErrorThenOk POST ''/v1/orders'' 3) \<and> (0 :: nat) < 3
   \<and> retriable (httpErrorThenOk 0)
   \<and> Suc 0 < snd (request httpErrorThenOk POST ''/v1/orders'' 3)
   \<and> snd (placeMarketOrder httpErrorThenOk) = 2"
proof -
  have h1: "Suc 0 < snd (request networkErrorThenOk POST ''/v1/orders'' 3)"
    by (simp add: request_eval)
  have h2: "0 < snd (request httpErrorThenOk POST ''/v1/orders'' 3) \<and> (0 :: nat) < 3
            \<and> retriable (httpErrorThenOk 0)"
    by (simp add: request_eval retriable_def httpErrorThenOk_def)
  have p1: "Suc 0 < snd (request networkErrorThenOk POST ''/v1/orders'' 3) \<longrightarrow>
          (case networkErrorThenOk 0 of
             Resolved response \<Rightarrow> \<not> ok response
           | Rejected error \<Rightarrow> isNetworkError error)"
    using request_retry_policy [of networkErrorThenOk POST "''/v1/orders''" 3] by blast
  have n0: "networkErrorThenOk 0
              = Rejected \<lparr> name_e = ''TypeError'', message_e = ''fetch failed'' \<rparr>"
    by (simp add: networkErrorThenOk_def)
  from p1 h1 have c1: "isNetworkError \<lparr> name_e = ''TypeError'', message_e = ''fetch failed'' \<rparr>"
    by (simp add: n0)
  have p2: "0 < snd (request httpErrorThenOk POST ''/v1/orders'' 3) \<and> (0 :: nat) < 3
             \<and> retriable (httpErrorThenOk 0) \<longrightarrow>
          Suc 0 < snd (request httpErrorThenOk POST ''/v1/orders'' 3)"
    using request_retry_policy [of httpErrorThenOk POST "''/v1/orders''" 3] by blast
  from p2 h2 have c2: "Suc 0 < snd (request httpErrorThenOk POST ''/v1/orders'' 3)"
    by (simp only: simp_thms)
  have c3: "snd (placeMarketOrder httpErrorThenOk) = 2"
    using request_retry_policy [of httpErrorThenOk POST "''/v1/orders''" 3]
    by (simp add: request_eval)
  from h1 n0 c1 h2 c2 c3 show ?thesis
    by (simp only: simp_thms)
qed

section \<open>Properties of the cached JWT\<close>

lemma clientStep_call_client: "client (clientStep s (CallGetJWT now)) = client s"
  by (simp add: clientStep_def split: jwt_start.splits)

lemma getJWT_start_valid:
  "tokenValid c now \<Longrightarrow> \<exists>token. getJWT_start c now = Cached token"
  by (auto simp: getJWT_start_def tokenValid_def split: option.splits)

lemma getJWT_start_invalid:
  "\<not> tokenValid c now \<Longrightarrow> getJWT_start c now = RefreshRequested now"
  by (simp add: getJWT_start_def)

lemma clientStep_call_invalid:
  "\<not> tokenValid (client s) now \<Longrightarrow>
   refreshing (clientStep s (CallGetJWT now)) = refreshing s @ [calls s]
   \<and> refreshRequests (clientStep s (CallGetJWT now)) = refreshRequests s + 1"
  by (simp add: clientStep_def getJWT_start_invalid)

lemma clientStep_call_valid:
  "tokenValid (client s) now \<Longrightarrow>
   refreshing (clientStep s (CallGetJWT now)) = refreshing s
   \<and> refreshRequests (clientStep s (CallGetJWT now)) = refreshRequests s"
  using getJWT_start_valid [of "client s" now]
  by (auto simp: clientStep_def)

lemma clientRun_calls_invalid:
  "\<forall>now \<in> set nows. \<not> tokenValid (client s) now \<Longrightarrow>
   length (refreshing (clientRun s (map CallGetJWT nows))) = length (refreshing s) + length nows
   \<and> refreshRequests (clientRun s (map CallGetJWT nows)) = refreshRequests s + length nows"
proof (induction nows arbitrary: s)
  case Nil
  then show ?case by (simp add: clientRun_def)
next
  case (Cons now nows)
  have inv: "\<not> tokenValid (client s) now"
    using Cons.prems by simp
  have "\<forall>t \<in> set nows. \<not> tokenValid (client (clientStep s (CallGetJWT now))) t"
    using Cons.prems by (simp add: clientStep_call_client)
  from Cons.IH [OF this] clientStep_call_invalid [OF inv] show ?case
    by (simp add: clientRun_def)
qed

text \<open>
  C6, as the sources have it. The claim reads: when two calls find the cached token
  within the refresh skew of its expiry, one refresh request is made and both calls wait
  for it. \<open>getJWT\<close> keeps no record of a refresh in progress: here the token expires in
  30 s, two calls are made before any reply, and two refresh requests are in flight.
\<close>

theorem refresh_counterexample:
  "\<not> tokenValid (client expiringClientRun) 100000
   \<and> refreshing (clientRun expiringClientRun [CallGetJWT 100000, CallGetJWT 100000]) = [0, 1]
   \<and> refreshRequests (clientRun expiringClientRun [CallGetJWT 100000, CallGetJWT 100000]) = 2"
  by (simp add: clientRun_def clientStep_def getJWT_start_def tokenValid_def
      expiringClientRun_def newClientRun_def)

text \<open>
  C6, amended. Every call of \<open>getJWT\<close> that finds the cached token absent or within
  60000 ms of its expiry makes a refresh request of its own, whatever refresh requests are
  in flight, so that \<open>n\<close> such calls made before any reply leave \<open>n\<close> more requests in
  flight; a call that finds a token with more than 60000 ms to its expiry makes none.
\<close>

theorem refresh_per_call:
  "(\<not> tokenValid (client s) now \<longrightarrow>
      refreshing (clientStep s (CallGetJWT now)) = refreshing s @ [calls s]
      \<and> refreshRequests (clientStep s (CallGetJWT now)) = refreshRequests s + 1)
   \<and> (tokenValid (client s) now \<longrightarrow>
      refreshing (clientStep s (CallGetJWT now)) = refreshing s
      \<and> refreshRequests (clientStep s (CallGetJWT now)) = refreshRequests s)
   \<and> ((\<forall>t \<in> set nows. \<not> tokenValid (client s) t) \<longrightarrow>
      length (refreshing (clientRun s (map CallGetJWT nows)))
        = length (refreshing s) + length nows
      \<and> refreshRequests (clientRun s (map CallGetJWT nows)) = refreshRequests s + length nows)"
  using clientStep_call_invalid [of s now] clientStep_call_valid [of s now]
    clientRun_calls_invalid [of nows s]
  by blast

theorem refresh_per_call_witness:
  "\<not> tokenValid (client expiringClientRun) 100000
   \<and> refreshRequests (clientStep expiringClientRun (CallGetJWT 100000)) = 1
   \<and> tokenValid (client expiringClientRun) 50000
   \<and> refreshRequests (clientStep expiringClientRun (CallGetJWT 50000)) = 0
   \<and> \<not> tokenValid (client expiringClientRun) 100001
   \<and> \<not> tokenValid (client expiringClientRun) 100002
   \<and> refreshRequests (clientRun expiringClientRun (map CallGetJWT [100000, 100001, 100002])) = 3"
proof -
  have h1: "\<not> tokenValid (client expiringClientRun) 100000"
    by (simp add: tokenValid_def expiringClientRun_def newClientRun_def)
  have h2: "tokenValid (client expiringClientRun) 50000"
    by (simp add: tokenValid_def expiringClientRun_def newClientRun_def)
  have h3: "\<forall>t \<in> set [100000, 100001, 100002]. \<not> tokenValid (client expiringClientRun) t"
    by (simp add: tokenValid_def expiringClientRun_def newClientRun_def)
  have z: "refreshRequests expiringClientRun = 0"
    by (simp add: expiringClientRun_def newClientRun_def)
  from h1 refresh_per_call [of expiringClientRun 100000 "[]"] z
  have c1: "refreshRequests (clientStep expiringClientRun (CallGetJWT 100000)) = 1"
    by simp
  from h2 refresh_per_call [of expiringClientRun 50000 "[]"] z
  have c2: "refreshRequests (clientStep expiringClientRun (CallGetJWT 50000)) = 0"
    by simp
  from h3 refresh_per_call [of expiringClientRun 0 "[100000, 100001, 100002]"] z
  have c3: "refreshRequests (clientRun expiringClientRun
              (map CallGetJWT [100000, 100001, 100002])) = 3"
    by simp
  from h3 have h4: "\<not> tokenValid (client expiringClientRun) 100001
                    \<and> \<not> tokenValid (client expiringClientRun) 100002"
    by simp
  from h1 c1 h2 c2 h4 c3 show ?thesis
    by (simp only: simp_thms)
qed

section \<open>Properties of ParadexTradingAgent\<close>

lemma js_le_NaN_right [simp]: "js_le a NaN = False"
  by (cases a) simp_all

lemma js_le_refl: "a \<noteq> NaN \<Longrightarrow> js_le a a"
  by (cases a) simp_all

lemma js_le_total: "a \<noteq> NaN \<Longrightarrow> b \<noteq> NaN \<Longrightarrow> js_le a b \<or> js_le b a"
  by (cases a; cases b) auto

lemma js_max_ge: "a \<noteq> NaN \<Longrightarrow> b \<noteq> NaN \<Longrightarrow> js_le b (js_max a b)"
  using js_le_total [of a b] by (auto simp: js_max_def js_le_refl)

lemma js_min_le: "a \<noteq> NaN \<Longrightarrow> b \<noteq> NaN \<Longrightarrow> js_le (js_min a b) b"
  using js_le_total [of a b] by (auto simp: js_min_def js_le_refl)

lemma convertPosition_bracketed:
  "convertPosition apiPos now = Some position \<Longrightarrow> unrealizedROE position \<noteq> NaN \<Longrightarrow>
   roeBracketed position"
  by (auto simp: convertPosition_def roeBracketed_def Let_def js_le_refl split: if_splits)

lemma repricePosition_bracketed:
  assumes "highestROE position \<noteq> NaN" and "lowestROE position \<noteq> NaN"
    and "unrealizedROE (repricePosition position price now) \<noteq> NaN"
  shows "roeBracketed (repricePosition position price now)"
  using assms
  by (simp add: repricePosition_def roeBracketed_def Let_def js_max_ge js_min_le)

lemma js_div_not_NaN: "y \<noteq> 0 \<Longrightarrow> js_times (js_div x y) 100 = Fin (x / y * 100)"
  by (simp add: js_div_def js_times_def)

lemma convertPosition_bracketed_margin:
  assumes "convertPosition apiPos now = Some position" and "margin_used apiPos \<noteq> 0"
  shows "roeBracketed position"
proof -
  from assms have "unrealizedROE position
                     = Fin (unrealized_pnl apiPos / margin_used apiPos * 100)"
    by (auto simp: convertPosition_def Let_def js_div_not_NaN split: if_splits)
  then have "unrealizedROE position \<noteq> NaN"
    by simp
  with assms(1) show ?thesis
    by (rule convertPosition_bracketed)
qed

lemma repricePosition_bracketed_margin:
  assumes "highestROE position \<noteq> NaN" and "lowestROE position \<noteq> NaN"
    and "marginUsed position \<noteq> 0"
  shows "roeBracketed (repricePosition position price now)"
proof -
  from assms(3) have "unrealizedROE (repricePosition position price now) \<noteq> NaN"
    by (simp add: repricePosition_def Let_def js_div_not_NaN)
  with assms(1,2) show ?thesis
    by (rule repricePosition_bracketed)
qed

text \<open>
  C9. The claim reads: at its creation from a snapshot of the exchange and after every
  price update, a position has \<open>lowestROE \<le> unrealizedROE \<le> highestROE\<close>. The running
  maximum and minimum keep it so as long as the return on equity is a number, which it
  is when the margin is not 0 (the lemmas above). When the exchange reports a position with margin 0 and profit 0, the
  return on equity is \<open>0 / 0 * 100\<close>, which is \<open>NaN\<close>, all three fields are \<open>NaN\<close>, and both
  comparisons are false.
\<close>

theorem roe_bracket_fails_without_margin:
  "map_option roeBracketed (convertPosition zeroMarginApiPos 0) = Some False"
  by (simp add: convertPosition_def zeroMarginApiPos_def exampleApiPos_def js_div_def
      js_times_def roeBracketed_def Let_def)

lemma closePosition_start_calls:
  "objects s ref = Some p \<Longrightarrow>
   closeCalls (closePosition_start s ref reason) = closeCalls s @ [closeCallOf p]
   \<and> closing (closePosition_start s ref reason)
       = closing s @ [(length (closeCalls s), ref, reason)]
   \<and> positions (closePosition_start s ref reason) = positions s
   \<and> objects (closePosition_start s ref reason) = objects s
   \<and> config (closePosition_start s ref reason) = config s"
  by (simp add: closePosition_start_def closeCallOf_def Let_def)

lemma check_cases:
  assumes "objects s ref = Some p"
  shows "checkPositionExitConditions s ref now =
     (if js_le (unrealizedROE p) (Fin (stopLossROE (config s)))
      then closePosition_start s ref stop_loss
      else if js_ge (unrealizedROE p) (Fin (takeProfitROE (config s)))
      then closePosition_start s ref take_profit
      else if real_of_int (now - openedAt p) / 60000 \<ge> maxHoldTimeMinutes (config s)
      then closePosition_start s ref max_hold_time
      else s)"
  using assms by (simp add: checkPositionExitConditions_def Let_def)

lemma closePosition_start_length:
  "length (closeCalls (closePosition_start s ref reason)) \<le> Suc (length (closeCalls s))"
  by (simp add: closePosition_start_def Let_def split: option.splits)

lemma check_length:
  "length (closeCalls (checkPositionExitConditions s ref now)) \<le> Suc (length (closeCalls s))"
  by (simp add: checkPositionExitConditions_def Let_def closePosition_start_length
      split: option.splits)

lemma updatePositionPrices_length:
  "length (closeCalls (updatePositionPrices s market price now)) \<le> Suc (length (closeCalls s))"
proof -
  have "\<And>r q. length (closeCalls (checkPositionExitConditions
            (s\<lparr>objects := (objects s)(r \<mapsto> q)\<rparr>) r now)) \<le> Suc (length (closeCalls s))"
    using check_length [of "s\<lparr>objects := (objects s)(r \<mapsto> q)\<rparr>" for r q] by simp
  then show ?thesis
    by (simp add: updatePositionPrices_def split: option.splits)
qed

text \<open>
  C8. When a price update is processed for a symbol with a live position, the exit
  conditions are tried in a fixed order: stop-loss (\<open>unrealizedROE \<le> stopLossROE\<close>), then
  take-profit (\<open>unrealizedROE \<ge> takeProfitROE\<close>), then the maximum holding time (the
  minutes since \<open>openedAt\<close> are at least \<open>maxHoldTimeMinutes\<close>). The first that holds starts
  a close with its reason, and that is the one close of the evaluation: a close hands one
  order to the REST client, and an evaluation adds at most one. Stop-loss wins when the
  take-profit threshold is crossed as well.
\<close>

theorem exit_priority:
  assumes "objects s ref = Some p"
  shows
    "(js_le (unrealizedROE p) (Fin (stopLossROE (config s))) \<longrightarrow>
        checkPositionExitConditions s ref now = closePosition_start s ref stop_loss)
     \<and> (\<not> js_le (unrealizedROE p) (Fin (stopLossROE (config s)))
        \<and> js_ge (unrealizedROE p) (Fin (takeProfitROE (config s))) \<longrightarrow>
        checkPositionExitConditions s ref now = closePosition_start s ref take_profit)
     \<and> (\<not> js_le (unrealizedROE p) (Fin (stopLossROE (config s)))
        \<and> \<not> js_ge (unrealizedROE p) (Fin (takeProfitROE (config s)))
        \<and> real_of_int (now - openedAt p) / 60000 \<ge> maxHoldTimeMinutes (config s) \<longrightarrow>
        checkPositionExitConditions s ref now = closePosition_start s ref max_hold_time)
     \<and> (\<not> js_le (unrealizedROE p) (Fin (stopLossROE (config s)))
        \<and> \<not> js_ge (unrealizedROE p) (Fin (takeProfitROE (config s)))
        \<and> \<not> real_of_int (now - openedAt p) / 60000 \<ge> maxHoldTimeMinutes (config s) \<longrightarrow>
        checkPositionExitConditions s ref now = s)
     \<and> closeCalls (closePosition_start s ref reason) = closeCalls s @ [closeCallOf p]
     \<and> closing (closePosition_start s ref reason)
         = closing s @ [(length (closeCalls s), ref, reason)]
     \<and> length (closeCalls (checkPositionExitConditions s ref now)) \<le> length (closeCalls s) + 1
     \<and> length (closeCalls (updatePositionPrices s market price now))
         \<le> length (closeCalls s) + 1
     \<and> (positions s market = Some ref \<longrightarrow>
          updatePositionPrices s market price now =
            checkPositionExitConditions
              (s\<lparr>objects := (objects s)(ref \<mapsto> repricePosition p price now)\<rparr>) ref now)"
proof -
  note cc = check_cases [OF assms, of now]
  have live: "positions s market = Some ref \<longrightarrow>
          updatePositionPrices s market price now =
            checkPositionExitConditions
              (s\<lparr>objects := (objects s)(ref \<mapsto> repricePosition p price now)\<rparr>) ref now"
    using assms by (simp add: updatePositionPrices_def)
  have len: "length (closeCalls (checkPositionExitConditions s ref now))
               \<le> length (closeCalls s) + 1"
    using check_length [of s ref now] by simp
  have upd: "length (closeCalls (updatePositionPrices s market price now))
               \<le> length (closeCalls s) + 1"
    using updatePositionPrices_length [of s market price now] by simp
  from cc closePosition_start_calls [OF assms, of reason] len upd live show ?thesis
    by simp
qed

lemma exampleAgent_eval:
  "objects exampleAgent 0 = Some examplePosition"
  "positions exampleAgent ''ETH-USD-PERP'' = Some 0"
  "closeCalls exampleAgent = []"
  "closing exampleAgent = []"
  "config exampleAgent = exampleConfig"
  by (simp_all add: exampleAgent_def agentStep_def handlePositionUpdate_def convertPosition_def
      exampleApiPos_def setPosition_def newAgent_def examplePosition_def js_div_def
      js_times_def Let_def)

theorem exit_priority_witness:
  "objects (exampleAgent\<lparr>config := crossedConfig\<rparr>) 0 = Some examplePosition
   \<and> js_le (unrealizedROE examplePosition) (Fin (stopLossROE crossedConfig))
   \<and> js_ge (unrealizedROE examplePosition) (Fin (takeProfitROE crossedConfig))
   \<and> closing (checkPositionExitConditions (exampleAgent\<lparr>config := crossedConfig\<rparr>) 0 0)
       = [(0, 0, stop_loss)]
   \<and> \<not> js_le (unrealizedROE examplePosition) (Fin (stopLossROE profitConfig))
   \<and> js_ge (unrealizedROE examplePosition) (Fin (takeProfitROE profitConfig))
   \<and> closing (checkPositionExitConditions (exampleAgent\<lparr>config := profitConfig\<rparr>) 0 0)
       = [(0, 0, take_profit)]
   \<and> \<not> js_le (unrealizedROE examplePosition) (Fin (stopLossROE exampleConfig))
   \<and> \<not> js_ge (unrealizedROE examplePosition) (Fin (takeProfitROE exampleConfig))
   \<and> real_of_int (1800000 - openedAt examplePosition) / 60000
        \<ge> maxHoldTimeMinutes exampleConfig
   \<and> closing (checkPositionExitConditions exampleAgent 0 1800000) = [(0, 0, max_hold_time)]
   \<and> \<not> real_of_int (1799999 - openedAt examplePosition) / 60000
        \<ge> maxHoldTimeMinutes exampleConfig
   \<and> checkPositionExitConditions exampleAgent 0 1799999 = exampleAgent
   \<and> positions exampleAgent ''ETH-USD-PERP'' = Some 0
   \<and> closing (updatePositionPrices exampleAgent ''ETH-USD-PERP'' 99 1000) = [(0, 0, stop_loss)]"
proof -
  have o1: "objects (exampleAgent\<lparr>config := crossedConfig\<rparr>) 0 = Some examplePosition"
    by (simp add: exampleAgent_eval)
  have o2: "objects (exampleAgent\<lparr>config := profitConfig\<rparr>) 0 = Some examplePosition"
    by (simp add: exampleAgent_eval)
  have o3: "objects exampleAgent 0 = Some examplePosition"
    by (simp add: exampleAgent_eval)
  have c1: "js_le (unrealizedROE examplePosition) (Fin (stopLossROE crossedConfig))
            \<and> js_ge (unrealizedROE examplePosition) (Fin (takeProfitROE crossedConfig))"
    by (simp add: examplePosition_def crossedConfig_def js_ge_def)
  have c2: "\<not> js_le (unrealizedROE examplePosition) (Fin (stopLossROE profitConfig))
            \<and> js_ge (unrealizedROE examplePosition) (Fin (takeProfitROE profitConfig))"
    by (simp add: examplePosition_def profitConfig_def js_ge_def)
  have c3: "\<not> js_le (unrealizedROE examplePosition) (Fin (stopLossROE exampleConfig))
            \<and> \<not> js_ge (unrealizedROE examplePosition) (Fin (takeProfitROE exampleConfig))
            \<and> real_of_int (1800000 - openedAt examplePosition) / 60000
                \<ge> maxHoldTimeMinutes exampleConfig
            \<and> \<not> real_of_int (1799999 - openedAt examplePosition) / 60000
                \<ge> maxHoldTimeMinutes exampleConfig"
    by (simp add: examplePosition_def exampleConfig_def js_ge_def)
  have r1: "closing (checkPositionExitConditions (exampleAgent\<lparr>config := crossedConfig\<rparr>) 0 0)
              = [(0, 0, stop_loss)]"
    using exit_priority [OF o1, where now = 0 and reason = stop_loss] c1
    by (simp add: exampleAgent_eval)
  have r2: "closing (checkPositionExitConditions (exampleAgent\<lparr>config := profitConfig\<rparr>) 0 0)
              = [(0, 0, take_profit)]"
    using exit_priority [OF o2, where now = 0 and reason = take_profit] c2
    by (simp add: exampleAgent_eval)
  have r3: "closing (checkPositionExitConditions exampleAgent 0 1800000)
              = [(0, 0, max_hold_time)]"
    using exit_priority [OF o3, where now = 1800000 and reason = max_hold_time] c3
    by (simp add: exampleAgent_eval)
  have r4: "checkPositionExitConditions exampleAgent 0 1799999 = exampleAgent"
    using exit_priority [OF o3, where now = 1799999] c3
    by (simp add: exampleAgent_eval)
  have p5: "positions exampleAgent ''ETH-USD-PERP'' = Some 0"
    by (simp add: exampleAgent_eval)
  have r5: "closing (updatePositionPrices exampleAgent ''ETH-USD-PERP'' 99 1000)
              = [(0, 0, stop_loss)]"
    using exit_priority [OF o3, where market = "''ETH-USD-PERP''" and price = 99
        and now = 1000] p5
    by (simp add: exampleAgent_eval checkPositionExitConditions_def closePosition_start_def
        repricePosition_def examplePosition_def exampleConfig_def js_div_def js_times_def
        js_max_def js_min_def Let_def)
  from o1 c1 r1 c2 r2 c3 r3 r4 p5 r5 show ?thesis
    by (simp only: simp_thms)
qed

lemma closePosition_start_positions:
  "positions (closePosition_start s ref reason) = positions s"
  by (simp add: closePosition_start_def Let_def split: option.splits)

lemma check_positions: "positions (checkPositionExitConditions s ref now) = positions s"
  by (simp add: checkPositionExitConditions_def Let_def closePosition_start_positions
      split: option.splits)

lemma updatePositionPrices_positions:
  "positions (updatePositionPrices s market price now) = positions s"
  by (simp add: updatePositionPrices_def check_positions split: option.splits)

lemma handleTickerUpdate_positions:
  "positions (handleTickerUpdate s market price timestamp now) = positions s"
  by (simp add: handleTickerUpdate_def updatePositionPrices_positions)

lemma closeCallOf_reprice: "closeCallOf (repricePosition p price now) = closeCallOf p"
  by (simp add: closeCallOf_def repricePosition_def Let_def)

lemma handleTickerUpdate_live:
  assumes "positions s m = Some ref" and "objects s ref = Some p"
  shows "handleTickerUpdate s m price ts now =
           checkPositionExitConditions
             (s\<lparr>priceCache := (priceCache s)(m \<mapsto> (price, ts)),
                emitted := emitted s @ [Emit_ticker m],
                objects := (objects s)(ref \<mapsto> repricePosition p price now)\<rparr>) ref now"
  using assms by (simp add: handleTickerUpdate_def updatePositionPrices_def)

lemma handleTickerUpdate_none:
  assumes "positions s m = None"
  shows "closeCalls (handleTickerUpdate s m price ts now) = closeCalls s
         \<and> closing (handleTickerUpdate s m price ts now) = closing s"
  using assms by (simp add: handleTickerUpdate_def updatePositionPrices_def)

lemma check_triggered:
  assumes "objects s ref = Some p" and "exitTriggered (config s) p now"
  shows "\<exists>reason. checkPositionExitConditions s ref now = closePosition_start s ref reason"
proof (cases "js_le (unrealizedROE p) (Fin (stopLossROE (config s)))")
  case True
  then have "checkPositionExitConditions s ref now = closePosition_start s ref stop_loss"
    by (simp add: check_cases [OF assms(1)])
  then show ?thesis ..
next
  case sl: False
  show ?thesis
  proof (cases "js_ge (unrealizedROE p) (Fin (takeProfitROE (config s)))")
    case True
    with sl have "checkPositionExitConditions s ref now = closePosition_start s ref take_profit"
      by (simp add: check_cases [OF assms(1)])
    then show ?thesis ..
  next
    case False
    with sl assms(2)
    have "checkPositionExitConditions s ref now = closePosition_start s ref max_hold_time"
      by (simp add: check_cases [OF assms(1)] exitTriggered_def)
    then show ?thesis ..
  qed
qed

lemma check_not_triggered:
  assumes "objects s ref = Some p" and "\<not> exitTriggered (config s) p now"
  shows "checkPositionExitConditions s ref now = s"
  using assms(2) by (simp add: check_cases [OF assms(1)] exitTriggered_def)

lemma closingAgent_eval:
  "positions closingAgent ''ETH-USD-PERP'' = Some 0"
  "closing closingAgent = [(0, 0, stop_loss)]"
  "closeCalls closingAgent = [closeCallOf examplePosition]"
  "objects closingAgent 0 = Some (repricePosition examplePosition 99 1000)"
  "config closingAgent = exampleConfig"
  by (simp_all add: closingAgent_def agentStep_def handleTickerUpdate_def
      updatePositionPrices_def exampleAgent_eval checkPositionExitConditions_def
      closePosition_start_def repricePosition_def examplePosition_def exampleConfig_def
      closeCallOf_def js_div_def js_times_def js_max_def js_min_def Let_def)

text \<open>
  C2, as the sources have it. The claim reads: between the trigger of a close and its
  confirmation, at most one close order is issued for a position, however many price
  updates arrive. A \<open>Position\<close> has no lifecycle state and \<open>checkPositionExitConditions\<close>
  does not look at the closes in progress: here two price updates below the stop-loss
  arrive before any reply, and two close orders are handed to the REST client for the
  same position, which is still in the live set.
\<close>

theorem double_close_counterexample:
  "positions exampleAgent ''ETH-USD-PERP'' = Some 0
   \<and> closeCalls exampleAgent = []
   \<and> closeCalls (agentRun exampleAgent twoTickers)
       = [\<lparr> call_market = ''ETH-USD-PERP'', call_side = sell, call_size = 1,
             call_reduce_only = True \<rparr>,
          \<lparr> call_market = ''ETH-USD-PERP'', call_side = sell, call_size = 1,
             call_reduce_only = True \<rparr>]
   \<and> closing (agentRun exampleAgent twoTickers) = [(0, 0, stop_loss), (1, 0, stop_loss)]
   \<and> positions (agentRun exampleAgent twoTickers) ''ETH-USD-PERP'' = Some 0"
  by (simp add: agentRun_def twoTickers_def agentStep_def handleTickerUpdate_def
      updatePositionPrices_def exampleAgent_eval checkPositionExitConditions_def
      closePosition_start_def repricePosition_def examplePosition_def exampleConfig_def
      js_div_def js_times_def js_max_def js_min_def Let_def)

text \<open>
  C2, amended. For every live position, each price update for its symbol after which an
  exit condition holds hands one close order to the REST client, whatever close orders
  for the position still wait for their reply; a price update after which no exit
  condition holds, and a price update for a symbol without a live position, hand none.
\<close>

theorem close_per_trigger:
  "(positions s m = Some ref \<and> objects s ref = Some p
      \<and> exitTriggered (config s) (repricePosition p price now) now \<longrightarrow>
      closeCalls (agentStep s (TickerMsg m price ts now)) = closeCalls s @ [closeCallOf p]
      \<and> (\<exists>reason. closing (agentStep s (TickerMsg m price ts now))
                     = closing s @ [(length (closeCalls s), ref, reason)]))
   \<and> (positions s m = Some ref \<and> objects s ref = Some p
      \<and> \<not> exitTriggered (config s) (repricePosition p price now) now \<longrightarrow>
      closeCalls (agentStep s (TickerMsg m price ts now)) = closeCalls s
      \<and> closing (agentStep s (TickerMsg m price ts now)) = closing s)
   \<and> (positions s m = None \<longrightarrow>
      closeCalls (agentStep s (TickerMsg m price ts now)) = closeCalls s
      \<and> closing (agentStep s (TickerMsg m price ts now)) = closing s)"
proof -
  let ?s' = "s\<lparr>priceCache := (priceCache s)(m \<mapsto> (price, ts)),
                emitted := emitted s @ [Emit_ticker m],
                objects := (objects s)(ref \<mapsto> repricePosition p price now)\<rparr>"
  have obj: "objects ?s' ref = Some (repricePosition p price now)"
    by simp
  have A: "positions s m = Some ref \<and> objects s ref = Some p
      \<and> exitTriggered (config s) (repricePosition p price now) now \<longrightarrow>
      closeCalls (agentStep s (TickerMsg m price ts now)) = closeCalls s @ [closeCallOf p]
      \<and> (\<exists>reason. closing (agentStep s (TickerMsg m price ts now))
                     = closing s @ [(length (closeCalls s), ref, reason)])"
  proof
    assume h: "positions s m = Some ref \<and> objects s ref = Some p
      \<and> exitTriggered (config s) (repricePosition p price now) now"
    then have step: "agentStep s (TickerMsg m price ts now)
                       = checkPositionExitConditions ?s' ref now"
      by (simp add: agentStep_def handleTickerUpdate_live)
    from h have "exitTriggered (config ?s') (repricePosition p price now) now"
      by simp
    from check_triggered [OF obj this] obtain reason where
      "checkPositionExitConditions ?s' ref now = closePosition_start ?s' ref reason" ..
    with closePosition_start_calls [OF obj, of reason] step show
      "closeCalls (agentStep s (TickerMsg m price ts now)) = closeCalls s @ [closeCallOf p]
      \<and> (\<exists>reason. closing (agentStep s (TickerMsg m price ts now))
                     = closing s @ [(length (closeCalls s), ref, reason)])"
      by (simp add: closeCallOf_reprice)
  qed
  have B: "positions s m = Some ref \<and> objects s ref = Some p
      \<and> \<not> exitTriggered (config s) (repricePosition p price now) now \<longrightarrow>
      closeCalls (agentStep s (TickerMsg m price ts now)) = closeCalls s
      \<and> closing (agentStep s (TickerMsg m price ts now)) = closing s"
  proof
    assume h: "positions s m = Some ref \<and> objects s ref = Some p
      \<and> \<not> exitTriggered (config s) (repricePosition p price now) now"
    then have step: "agentStep s (TickerMsg m price ts now)
                       = checkPositionExitConditions ?s' ref now"
      by (simp add: agentStep_def handleTickerUpdate_live)
    from h have "\<not> exitTriggered (config ?s') (repricePosition p price now) now"
      by simp
    from check_not_triggered [OF obj this]
    have "checkPositionExitConditions ?s' ref now = ?s'" .
    with step show "closeCalls (agentStep s (TickerMsg m price ts now)) = closeCalls s
      \<and> closing (agentStep s (TickerMsg m price ts now)) = closing s"
      by simp
  qed
  have C: "positions s m = None \<longrightarrow>
      closeCalls (agentStep s (TickerMsg m price ts now)) = closeCalls s
      \<and> closing (agentStep s (TickerMsg m price ts now)) = closing s"
    by (simp add: agentStep_def handleTickerUpdate_none)
  from A B C show ?thesis
    by (simp only: simp_thms)
qed

theorem close_per_trigger_witness:
  "positions closingAgent ''ETH-USD-PERP'' = Some 0
   \<and> objects closingAgent 0 = Some (repricePosition examplePosition 99 1000)
   \<and> exitTriggered (config closingAgent)
        (repricePosition (repricePosition examplePosition 99 1000) 98 2000) 2000
   \<and> closing closingAgent = [(0, 0, stop_loss)]
   \<and> closeCalls (agentStep closingAgent (TickerMsg ''ETH-USD-PERP'' 98 2000 2000))
       = [closeCallOf examplePosition, closeCallOf examplePosition]
   \<and> positions exampleAgent ''ETH-USD-PERP'' = Some 0
   \<and> objects exampleAgent 0 = Some examplePosition
   \<and> \<not> exitTriggered (config exampleAgent) (repricePosition examplePosition 100 0) 0
   \<and> closeCalls (agentStep exampleAgent (TickerMsg ''ETH-USD-PERP'' 100 0 0)) = []
   \<and> positions exampleAgent ''BTC-USD-PERP'' = None
   \<and> closeCalls (agentStep exampleAgent (TickerMsg ''BTC-USD-PERP'' 1 0 0)) = []"
proof -
  have h1: "positions closingAgent ''ETH-USD-PERP'' = Some 0
      \<and> objects closingAgent 0 = Some (repricePosition examplePosition 99 1000)
      \<and> exitTriggered (config closingAgent)
           (repricePosition (repricePosition examplePosition 99 1000) 98 2000) 2000"
    by (simp add: closingAgent_eval exitTriggered_def repricePosition_def examplePosition_def
        exampleConfig_def js_div_def js_times_def js_max_def js_min_def Let_def)
  have h2: "positions exampleAgent ''ETH-USD-PERP'' = Some 0
      \<and> objects exampleAgent 0 = Some examplePosition
      \<and> \<not> exitTriggered (config exampleAgent) (repricePosition examplePosition 100 0) 0"
    by (simp add: exampleAgent_eval exitTriggered_def repricePosition_def examplePosition_def
        exampleConfig_def js_div_def js_times_def js_max_def js_min_def js_ge_def Let_def)
  have h3: "positions exampleAgent ''BTC-USD-PERP'' = None"
    by (simp add: exampleAgent_def agentStep_def handlePositionUpdate_def convertPosition_def
        exampleApiPos_def setPosition_def newAgent_def Let_def)
  have r1: "closeCalls (agentStep closingAgent (TickerMsg ''ETH-USD-PERP'' 98 2000 2000))
       = [closeCallOf examplePosition, closeCallOf examplePosition]"
    using h1 close_per_trigger [of closingAgent "''ETH-USD-PERP''" 0
        "repricePosition examplePosition 99 1000" 98 2000 2000]
    by (simp add: closingAgent_eval closeCallOf_reprice)
  have r2: "closeCalls (agentStep exampleAgent (TickerMsg ''ETH-USD-PERP'' 100 0 0)) = []"
    using h2 close_per_trigger [of exampleAgent "''ETH-USD-PERP''" 0 examplePosition 100 0 0]
    by (simp add: exampleAgent_eval)
  have r3: "closeCalls (agentStep exampleAgent (TickerMsg ''BTC-USD-PERP'' 1 0 0)) = []"
    using h3 close_per_trigger [of exampleAgent "''BTC-USD-PERP''" 0 examplePosition 1 0 0]
    by (simp add: exampleAgent_eval)
  from h1 h2 h3 r1 r2 r3 closingAgent_eval(2) show ?thesis
    by (simp only: simp_thms)
qed

lemma convertPosition_None: "convertPosition apiPos now = None \<longleftrightarrow> size_a apiPos = 0"
  by (simp add: convertPosition_def Let_def)

lemma setPosition_positions:
  "positions (setPosition s market position) m = (if m = market then Some (allocated s) else positions s m)"
  by (simp add: setPosition_def)

lemma syncPositions_fold_keeps:
  "positions s m \<noteq> None \<Longrightarrow>
   positions (foldl (\<lambda>s' apiPos.
                case convertPosition apiPos now of
                  Some position \<Rightarrow> setPosition s' (market_a apiPos) position
                | None \<Rightarrow> s') s apiPositions) m \<noteq> None"
proof (induction apiPositions arbitrary: s)
  case Nil
  then show ?case by simp
next
  case (Cons a as)
  have "positions (case convertPosition a now of
                     Some position \<Rightarrow> setPosition s (market_a a) position
                   | None \<Rightarrow> s) m \<noteq> None"
    using Cons.prems by (simp add: setPosition_positions split: option.splits)
  from Cons.IH [OF this] show ?case
    by simp
qed

lemma syncPositions_resume_keeps:
  "positions s m \<noteq> None \<Longrightarrow> positions (syncPositions_resume s r now) m \<noteq> None"
proof -
  assume live: "positions s m \<noteq> None"
  show ?thesis
  proof (cases r)
    case (Threw e)
    with live show ?thesis by (simp add: syncPositions_resume_def)
  next
    case (Replied response)
    show ?thesis
    proof (cases "data response")
      case None
      with live Replied show ?thesis by (simp add: syncPositions_resume_def)
    next
      case (Some apiPositions)
      show ?thesis
      proof (cases "success response")
        case True
        with Replied Some syncPositions_fold_keeps [OF live, of now apiPositions]
        show ?thesis by (simp add: syncPositions_resume_def)
      next
        case False
        with live Replied Some show ?thesis by (simp add: syncPositions_resume_def)
      qed
    qed
  qed
qed

lemma handlePositionUpdate_removes:
  assumes "positions s m \<noteq> None" and "positions (handlePositionUpdate s apiPos now) m = None"
  shows "market_a apiPos = m \<and> size_a apiPos = 0"
proof (cases "convertPosition apiPos now")
  case None
  then have "size_a apiPos = 0"
    by (simp add: convertPosition_None)
  moreover have "market_a apiPos = m"
    using assms None by (auto simp: handlePositionUpdate_def split: if_splits)
  ultimately show ?thesis by simp
next
  case (Some position)
  then have "positions (handlePositionUpdate s apiPos now) m \<noteq> None"
    using assms(1) by (simp add: handlePositionUpdate_def Let_def setPosition_positions)
  with assms(2) show ?thesis by simp
qed

lemma closePosition_resume_removes:
  assumes "positions s m \<noteq> None" and "positions (closePosition_resume s call r) m = None"
  shows "\<exists>response ref' reason p.
           r = Replied response \<and> success response \<and> data response \<noteq> None
           \<and> (call, ref', reason) \<in> set (closing s) \<and> objects s ref' = Some p \<and> symbol p = m"
proof (cases "find (\<lambda>(c, ref, reason). c = call) (closing s)")
  case None
  then have "closePosition_resume s call r = s"
    by (simp add: closePosition_resume_def)
  with assms show ?thesis by simp
next
  case (Some entry)
  obtain c ref' reason where entry: "entry = (c, ref', reason)"
    by (cases entry) auto
  from Some entry have mem: "(call, ref', reason) \<in> set (closing s)"
    by (auto simp: find_Some_iff in_set_conv_nth)
  from Some entry have fnd: "find (\<lambda>(c, ref, reason). c = call) (closing s)
                               = Some (c, ref', reason)"
    by simp
  show ?thesis
  proof (cases "objects s ref'")
    case None
    with fnd have "positions (closePosition_resume s call r) = positions s"
      by (simp add: closePosition_resume_def Let_def)
    with assms show ?thesis by simp
  next
    case (Some p)
    show ?thesis
    proof (cases r)
      case (Threw e)
      with fnd Some have "positions (closePosition_resume s call r) = positions s"
        by (simp add: closePosition_resume_def Let_def)
      with assms show ?thesis by simp
    next
      case (Replied response)
      show ?thesis
      proof (cases "success response \<and> data response \<noteq> None")
        case False
        with fnd Some Replied have "positions (closePosition_resume s call r) = positions s"
          by (auto simp: closePosition_resume_def Let_def)
        with assms show ?thesis by simp
      next
        case True
        with fnd Some Replied
        have "positions (closePosition_resume s call r) = (positions s)(symbol p := None)"
          by (simp add: closePosition_resume_def Let_def)
        with assms have "symbol p = m"
          by (auto split: if_splits)
        with True Replied mem Some show ?thesis
          by blast
      qed
    qed
  qed
qed

text \<open>
  C3, as the sources have it. The claim reads: a position leaves the live set only after
  the exchange has confirmed that it is closed, not when the close order is acknowledged.
  \<open>closePosition\<close> deletes the position as soon as the reply to the order reports success
  and carries the order: here the reply carries an order whose status is \<open>open\<close>, no
  position update has arrived, and the position is gone.
\<close>

theorem removed_on_acknowledgement_counterexample:
  "positions closingAgent ''ETH-USD-PERP'' = Some 0
   \<and> closing closingAgent = [(0, 0, stop_loss)]
   \<and> orderAccepted =
       Replied \<lparr> success = True,
                 data = Some \<lparr> id_o = ''order-1'', market_o = ''ETH-USD-PERP'',
                               status_o = open_s \<rparr>,
                 error_r = None \<rparr>
   \<and> positions (agentStep closingAgent (CloseReply 0 orderAccepted)) ''ETH-USD-PERP'' = None"
  by (simp add: closingAgent_eval agentStep_def closePosition_resume_def orderAccepted_def
      repricePosition_def examplePosition_def Let_def)

text \<open>
  C3, amended. A position leaves the live set only when the reply to a close order for it
  arrives and reports success with the order (an acknowledgement, whatever the status of
  the order), or when a position update with size 0 arrives for its market. No other
  event removes it: not the price update that submits the close order, not a failed or
  rejected reply, not an order update.
\<close>

theorem position_removal:
  assumes "positions s m = Some ref" and "positions (agentStep s input) m = None"
  shows "(\<exists>apiPos now. input = PositionMsg apiPos now \<and> market_a apiPos = m
                        \<and> size_a apiPos = 0)
         \<or> (\<exists>call response ref' reason p.
               input = CloseReply call (Replied response)
               \<and> success response \<and> data response \<noteq> None
               \<and> (call, ref', reason) \<in> set (closing s)
               \<and> objects s ref' = Some p \<and> symbol p = m)"
proof (cases input)
  case (TickerMsg market price ts now)
  then have "positions (agentStep s input) = positions s"
    by (simp add: agentStep_def handleTickerUpdate_positions)
  with assms show ?thesis by simp
next
  case (PositionMsg apiPos now)
  with assms have "market_a apiPos = m \<and> size_a apiPos = 0"
    using handlePositionUpdate_removes [of s m apiPos now] by (simp add: agentStep_def)
  with PositionMsg show ?thesis by blast
next
  case (OrderMsg order)
  then have "positions (agentStep s input) = positions s"
    by (simp add: agentStep_def handleOrderUpdate_def)
  with assms show ?thesis by simp
next
  case (AccountMsg e)
  then have "positions (agentStep s input) = positions s"
    by (simp add: agentStep_def split: option.splits)
  with assms show ?thesis by simp
next
  case (SyncReply r now)
  with assms show ?thesis
    using syncPositions_resume_keeps [of s m r now] by (simp add: agentStep_def)
next
  case (CloseReply call r)
  with assms obtain response ref' reason p where
    "r = Replied response \<and> success response \<and> data response \<noteq> None
     \<and> (call, ref', reason) \<in> set (closing s) \<and> objects s ref' = Some p \<and> symbol p = m"
    using closePosition_resume_removes [of s m call r] by (auto simp: agentStep_def)
  with CloseReply show ?thesis by blast
qed

theorem position_removal_witness:
  "positions closingAgent ''ETH-USD-PERP'' = Some 0
   \<and> positions (agentStep closingAgent (CloseReply 0 orderAccepted)) ''ETH-USD-PERP'' = None
   \<and> (\<exists>call response ref' reason p.
         CloseReply 0 orderAccepted = CloseReply call (Replied response)
         \<and> success response \<and> data response \<noteq> None
         \<and> (call, ref', reason) \<in> set (closing closingAgent)
         \<and> objects closingAgent ref' = Some p \<and> symbol p = ''ETH-USD-PERP'')"
proof -
  have h1: "positions closingAgent ''ETH-USD-PERP'' = Some 0"
    by (simp add: closingAgent_eval)
  have h2: "positions (agentStep closingAgent (CloseReply 0 orderAccepted)) ''ETH-USD-PERP''
              = None"
    by (simp add: closingAgent_eval agentStep_def closePosition_resume_def orderAccepted_def
        repricePosition_def examplePosition_def Let_def)
  from position_removal [OF h1 h2] h1 h2 show ?thesis
    by auto
qed

end
